theory Spec2Isabelle
  imports Complex_Main
begin

section \<open>Python values\<close>

text \<open>
  The program is a Telegram bot written in Python. Its strings are Python \<open>str\<close> values,
  sequences of Unicode code points, and almost all of its literals are Cyrillic; a string is
  therefore modelled as the list of its code points. \<open>cp\<close> turns an ASCII literal into
  such a list.
\<close>

type_synonym pystr = "nat list"

definition cp :: "string \<Rightarrow> pystr" where
  "cp s = map of_char s"

text \<open>The exceptions that the program's own expressions can raise.\<close>

datatype error = ValueError | KeyError | ZeroDivisionError

text \<open>
  Python's \<open>float\<close> is an IEEE double. The model keeps the three non-finite values, which
  \<open>float()\<close> accepts from the user (\<open>inf\<close>, \<open>-inf\<close>, \<open>nan\<close>), and takes the finite
  values to be reals. The operations of this section are the exact ones: rounding,
  overflow, underflow and the sign of zero are left out, which changes the last digits
  of a displayed value and nothing else, except where a product so small that it
  underflows is tested for its sign (the square root in \<open>calculate_cutting_width\<close>);
  what is proved there carries a hypothesis that keeps the product in the normal range.
  The products that \<open>calculate_overlap\<close> compares the depth with decide its result,
  and they are rounded as the machine rounds them (\<open>fmul_ieee\<close> below).
\<close>

datatype pyfloat = Fin real | PInf | NInf | NaN

fun is_neg :: "pyfloat \<Rightarrow> bool" where
  "is_neg (Fin x) = (x < 0)"
| "is_neg NInf = True"
| "is_neg PInf = False"
| "is_neg NaN = False"

fun fmul :: "pyfloat \<Rightarrow> pyfloat \<Rightarrow> pyfloat" where
  "fmul (Fin x) (Fin y) = Fin (x * y)"
| "fmul a b =
     (if a = NaN \<or> b = NaN \<or> a = Fin 0 \<or> b = Fin 0 then NaN
      else if is_neg a \<noteq> is_neg b then NInf else PInf)"

fun fsub :: "pyfloat \<Rightarrow> pyfloat \<Rightarrow> pyfloat" where
  "fsub (Fin x) (Fin y) = Fin (x - y)"
| "fsub a b =
     (if a = NaN \<or> b = NaN then NaN
      else if a = PInf then (if b = PInf then NaN else PInf)
      else if a = NInf then (if b = NInf then NaN else NInf)
      else if b = PInf then NInf else PInf)"

text \<open>Float division raises \<open>ZeroDivisionError\<close> on a zero divisor, whatever the dividend.\<close>

fun fdiv :: "pyfloat \<Rightarrow> pyfloat \<Rightarrow> error + pyfloat" where
  "fdiv (Fin x) (Fin y) = (if y = 0 then Inl ZeroDivisionError else Inr (Fin (x / y)))"
| "fdiv a (Fin y) =
     (if y = 0 then Inl ZeroDivisionError
      else if a = NaN then Inr NaN
      else if is_neg a \<noteq> (y < 0) then Inr NInf else Inr PInf)"
| "fdiv a b =
     (if a = NaN \<or> b = NaN then Inr NaN
      else (case a of Fin x \<Rightarrow> Inr (Fin 0) | _ \<Rightarrow> Inr NaN))"

text \<open>\<open>math.sqrt\<close> raises \<open>ValueError\<close> (math domain error) on a negative argument.\<close>

fun fsqrt :: "pyfloat \<Rightarrow> error + pyfloat" where
  "fsqrt (Fin x) = (if x < 0 then Inl ValueError else Inr (Fin (sqrt x)))"
| "fsqrt PInf = Inr PInf"
| "fsqrt NInf = Inl ValueError"
| "fsqrt NaN = Inr NaN"

fun fle :: "pyfloat \<Rightarrow> pyfloat \<Rightarrow> bool" where
  "fle (Fin x) (Fin y) = (x \<le> y)"
| "fle a b =
     (if a = NaN \<or> b = NaN then False
      else a = NInf \<or> b = PInf)"

text \<open>Truth values of the objects the program tests with \<open>if x\<close> and \<open>not x\<close>.\<close>

fun truthy_float :: "pyfloat option \<Rightarrow> bool" where
  "truthy_float None = False"
| "truthy_float (Some f) = (f \<noteq> Fin 0)"

fun truthy_str :: "pystr option \<Rightarrow> bool" where
  "truthy_str None = False"
| "truthy_str (Some s) = (s \<noteq> [])"

fun truthy_int :: "int option \<Rightarrow> bool" where
  "truthy_int None = False"
| "truthy_int (Some i) = (i \<noteq> 0)"

section \<open>Built-in functions the handlers call\<close>

text \<open>
  \<open>str.lower\<close>, restricted to the alphabets the catalog keys are written in: ASCII,
  Latin-1 and the basic Cyrillic block. Case mappings of other scripts are not modelled
  (such code points are left as they are). The handlers use the text only through this
  function, and what is proved of them below is stated through it.
\<close>

definition lower_cp :: "nat \<Rightarrow> nat" where
  "lower_cp c =
     (if 0x41 \<le> c \<and> c \<le> 0x5A then c + 0x20
      else if 0xC0 \<le> c \<and> c \<le> 0xDE \<and> c \<noteq> 0xD7 then c + 0x20
      else if 0x410 \<le> c \<and> c \<le> 0x42F then c + 0x20
      else if 0x400 \<le> c \<and> c \<le> 0x40F then c + 0x50
      else c)"

definition py_lower :: "pystr \<Rightarrow> pystr" where
  "py_lower s = map lower_cp s"

text \<open>\<open>s.replace(old, new)\<close> for one-character \<open>old\<close> and \<open>new\<close>.\<close>

definition py_replace :: "nat \<Rightarrow> nat \<Rightarrow> pystr \<Rightarrow> pystr" where
  "py_replace old new s = map (\<lambda>c. if c = old then new else c) s"

text \<open>
  \<open>float(s)\<close> and \<open>int(s)\<close> on a string: surrounding whitespace is dropped, then comes an
  optional sign and either \<open>inf\<close>, \<open>infinity\<close> or \<open>nan\<close> in any letter case (for \<open>float\<close>) or
  a decimal number, whose groups of digits may hold single underscores between digits;
  \<open>float\<close> takes an optional fraction and an optional exponent. Anything else raises
  \<open>ValueError\<close>. Only the ASCII digits are modelled (Python also converts the decimal
  digits of other scripts), and a number too large for a double stays finite. The
  handlers use the text only through the result of \<open>float\<close> or \<open>int\<close>, and what is proved
  of them below is stated through that result.
\<close>

definition is_space :: "nat \<Rightarrow> bool" where
  "is_space c \<longleftrightarrow>
     (0x09 \<le> c \<and> c \<le> 0x0D) \<or> (0x1C \<le> c \<and> c \<le> 0x20) \<or> c = 0x85 \<or> c = 0xA0 \<or>
     c = 0x1680 \<or> (0x2000 \<le> c \<and> c \<le> 0x200A) \<or> c = 0x2028 \<or> c = 0x2029 \<or>
     c = 0x202F \<or> c = 0x205F \<or> c = 0x3000"

definition strip :: "pystr \<Rightarrow> pystr" where
  "strip s = rev (dropWhile is_space (rev (dropWhile is_space s)))"

definition is_digit :: "nat \<Rightarrow> bool" where
  "is_digit c \<longleftrightarrow> 0x30 \<le> c \<and> c \<le> 0x39"

text \<open>
  \<open>digitpart s\<close> reads the longest group \<open>digit (["_"] digit)*\<close> at the front of \<open>s\<close> and
  returns its digits with the rest of the string; no digits when \<open>s\<close> starts otherwise.
\<close>

fun digitpart :: "pystr \<Rightarrow> nat list \<times> pystr" where
  "digitpart [] = ([], [])"
| "digitpart (c # cs) =
     (if \<not> is_digit c then ([], c # cs)
      else (case cs of
              u # d # rest \<Rightarrow>
                if u = 0x5F \<and> is_digit d
                then (case digitpart (d # rest) of (ds, r) \<Rightarrow> ((c - 0x30) # ds, r))
                else (case digitpart cs of (ds, r) \<Rightarrow> ((c - 0x30) # ds, r))
            | _ \<Rightarrow> (case digitpart cs of (ds, r) \<Rightarrow> ((c - 0x30) # ds, r))))"

definition digits_value :: "nat list \<Rightarrow> nat" where
  "digits_value ds = foldl (\<lambda>a d. 10 * a + d) 0 ds"

fun take_sign :: "pystr \<Rightarrow> bool \<times> pystr" where
  "take_sign [] = (False, [])"
| "take_sign (c # cs) =
     (if c = 0x2D then (True, cs) else if c = 0x2B then (False, cs) else (False, c # cs))"

definition exponent :: "pystr \<Rightarrow> (bool \<times> nat) option" where
  "exponent s =
     (case take_sign s of (neg, s') \<Rightarrow>
        (case digitpart s' of (ds, r) \<Rightarrow>
           if ds = [] \<or> r \<noteq> [] then None else Some (neg, digits_value ds)))"

definition fraction :: "pystr \<Rightarrow> nat list \<times> pystr" where
  "fraction s =
     (case s of
        [] \<Rightarrow> ([], [])
      | c # cs \<Rightarrow> if c = 0x2E then digitpart cs else ([], s))"

definition float_number :: "pystr \<Rightarrow> real option" where
  "float_number s =
     (case digitpart s of (ip, r1) \<Rightarrow>
        (case fraction r1 of (fp, r2) \<Rightarrow>
           if ip = [] \<and> fp = [] then None
           else
             (let m = real (digits_value ip) + real (digits_value fp) / 10 ^ length fp
              in (case r2 of
                    [] \<Rightarrow> Some m
                  | c # cs \<Rightarrow>
                      if c = 0x65 \<or> c = 0x45
                      then (case exponent cs of
                              None \<Rightarrow> None
                            | Some (neg, e) \<Rightarrow> Some (if neg then m / 10 ^ e else m * 10 ^ e))
                      else None))))"

definition ascii_lower :: "pystr \<Rightarrow> pystr" where
  "ascii_lower s = map (\<lambda>c. if 0x41 \<le> c \<and> c \<le> 0x5A then c + 0x20 else c) s"

definition py_float :: "pystr \<Rightarrow> error + pyfloat" where
  "py_float s =
     (case take_sign (strip s) of (neg, body) \<Rightarrow>
        if ascii_lower body = cp ''inf'' \<or> ascii_lower body = cp ''infinity''
        then Inr (if neg then NInf else PInf)
        else if ascii_lower body = cp ''nan'' then Inr NaN
        else (case float_number body of
                None \<Rightarrow> Inl ValueError
              | Some m \<Rightarrow> Inr (Fin (if neg then - m else m))))"

definition py_int :: "pystr \<Rightarrow> error + int" where
  "py_int s =
     (case take_sign (strip s) of (neg, body) \<Rightarrow>
        (case digitpart body of (ds, r) \<Rightarrow>
           if ds = [] \<or> r \<noteq> [] then Inl ValueError
           else Inr (if neg then - int (digits_value ds) else int (digits_value ds))))"

text \<open>
  The format specification \<open>.kf\<close> of an f-string: \<open>k\<close> digits after the point, the value
  rounded to the nearest multiple of \<open>10\<^sup>-\<^sup>k\<close>, ties to even.
\<close>

fun dec :: "nat \<Rightarrow> pystr" where
  "dec n = (if n < 10 then [0x30 + n] else dec (n div 10) @ [0x30 + n mod 10])"

definition round_half_even :: "real \<Rightarrow> int" where
  "round_half_even y =
     (let f = \<lfloor>y\<rfloor>; d = y - of_int f
      in if d < 1 / 2 then f else if 1 / 2 < d then f + 1 else if even f then f else f + 1)"

definition format_f :: "nat \<Rightarrow> pyfloat \<Rightarrow> pystr" where
  "format_f k v =
     (case v of
        NaN \<Rightarrow> cp ''nan''
      | PInf \<Rightarrow> cp ''inf''
      | NInf \<Rightarrow> cp ''-inf''
      | Fin x \<Rightarrow>
          let r = nat (round_half_even (\<bar>x\<bar> * 10 ^ k));
              ip = dec (r div 10 ^ k);
              fp = dec (r mod 10 ^ k)
          in (if x < 0 then cp ''-'' else []) @ ip @
             (if k = 0 then [] else cp ''.'' @ replicate (k - length fp) 0x30 @ fp))"

section \<open>The catalog of cutting parameters\<close>

text \<open>
  \<open>cutting_parameters\<close> is a dictionary nested four deep: material, operation, tool type,
  and then either the tool subtype or, for the two turning tools, one more dictionary
  (under the key \<open>radius_plastiny\<close> or \<open>shirina_plastiny\<close>) from a float to the entry.
  An entry is a dictionary with the keys \<open>skorost\<close> (speed) and \<open>podacha\<close> (feed), each a
  two-element list \<open>[min, max]\<close>, and sometimes \<open>glubina\<close> (depth). Dictionaries keep their
  insertion order, so they are association lists.
\<close>

definition stal :: pystr where \<comment> \<open>key 'stal' (steel)\<close>
  "stal =
     [0x441, 0x442, 0x430, 0x43B, 0x44C]"

definition tsvetnoy_metall :: pystr where \<comment> \<open>key 'tsvetnoy_metall' (non-ferrous metal)\<close>
  "tsvetnoy_metall =
     [0x446, 0x432, 0x435, 0x442, 0x43D, 0x43E, 0x439, 0x5F, 0x43C, 0x435, 0x442, 0x430,
     0x43B, 0x43B]"

definition frezerovanie :: pystr where \<comment> \<open>key 'frezerovanie' (milling)\<close>
  "frezerovanie =
     [0x444, 0x440, 0x435, 0x437, 0x435, 0x440, 0x43E, 0x432, 0x430, 0x43D, 0x438, 0x435]"

definition tochenie :: pystr where \<comment> \<open>key 'tochenie' (turning)\<close>
  "tochenie =
     [0x442, 0x43E, 0x447, 0x435, 0x43D, 0x438, 0x435]"

definition sverlenie :: pystr where \<comment> \<open>key 'sverlenie' (drilling)\<close>
  "sverlenie =
     [0x441, 0x432, 0x435, 0x440, 0x43B, 0x435, 0x43D, 0x438, 0x435]"

definition monolitnaya :: pystr where \<comment> \<open>key 'monolitnaya' (solid end mill)\<close>
  "monolitnaya =
     [0x43C, 0x43E, 0x43D, 0x43E, 0x43B, 0x438, 0x442, 0x43D, 0x430, 0x44F]"

definition s_plastinami :: pystr where \<comment> \<open>key 's_plastinami' (mill with inserts)\<close>
  "s_plastinami =
     [0x441, 0x5F, 0x43F, 0x43B, 0x430, 0x441, 0x442, 0x438, 0x43D, 0x430, 0x43C, 0x438]"

definition tsilindricheskaya :: pystr where \<comment> \<open>key 'tsilindricheskaya' (cylindrical)\<close>
  "tsilindricheskaya =
     [0x446, 0x438, 0x43B, 0x438, 0x43D, 0x434, 0x440, 0x438, 0x447, 0x435, 0x441, 0x43A,
     0x430, 0x44F]"

definition sfericheskaya :: pystr where \<comment> \<open>key 'sfericheskaya' (spherical, ball-nose)\<close>
  "sfericheskaya =
     [0x441, 0x444, 0x435, 0x440, 0x438, 0x447, 0x435, 0x441, 0x43A, 0x430, 0x44F]"

definition tortsevaya :: pystr where \<comment> \<open>key 'tortsevaya' (face mill)\<close>
  "tortsevaya =
     [0x442, 0x43E, 0x440, 0x446, 0x435, 0x432, 0x430, 0x44F]"

definition pazovaya :: pystr where \<comment> \<open>key 'pazovaya' (slot mill)\<close>
  "pazovaya =
     [0x43F, 0x430, 0x437, 0x43E, 0x432, 0x430, 0x44F]"

definition prokhodnoy :: pystr where \<comment> \<open>key 'prokhodnoy' (profiling turning tool)\<close>
  "prokhodnoy =
     [0x43F, 0x440, 0x43E, 0x445, 0x43E, 0x434, 0x43D, 0x43E, 0x439]"

definition kanavochny :: pystr where \<comment> \<open>key 'kanavochny' (grooving turning tool)\<close>
  "kanavochny =
     [0x43A, 0x430, 0x43D, 0x430, 0x432, 0x43E, 0x447, 0x43D, 0x44B, 0x439]"

definition radius_plastiny :: pystr where \<comment> \<open>key 'radius_plastiny' (insert radius)\<close>
  "radius_plastiny =
     [0x440, 0x430, 0x434, 0x438, 0x443, 0x441, 0x5F, 0x43F, 0x43B, 0x430, 0x441, 0x442,
     0x438, 0x43D, 0x44B]"

definition shirina_plastiny :: pystr where \<comment> \<open>key 'shirina_plastiny' (insert width)\<close>
  "shirina_plastiny =
     [0x448, 0x438, 0x440, 0x438, 0x43D, 0x430, 0x5F, 0x43F, 0x43B, 0x430, 0x441, 0x442,
     0x438, 0x43D, 0x44B]"

definition monolitnoe :: pystr where \<comment> \<open>key 'monolitnoe' (solid drill)\<close>
  "monolitnoe =
     [0x43C, 0x43E, 0x43D, 0x43E, 0x43B, 0x438, 0x442, 0x43D, 0x43E, 0x435]"

definition so_smennymi_plastinami :: pystr where \<comment> \<open>key 'so_smennymi_plastinami' (indexable drill)\<close>
  "so_smennymi_plastinami =
     [0x441, 0x43E, 0x5F, 0x441, 0x43C, 0x435, 0x43D, 0x43D, 0x44B, 0x43C, 0x438, 0x5F,
     0x43F, 0x43B, 0x430, 0x441, 0x442, 0x438, 0x43D, 0x430, 0x43C, 0x438]"

definition tverdy_splav :: pystr where \<comment> \<open>key 'tverdy_splav' (hard alloy, carbide)\<close>
  "tverdy_splav =
     [0x442, 0x432, 0x435, 0x440, 0x434, 0x44B, 0x439, 0x5F, 0x441, 0x43F, 0x43B, 0x430,
     0x432]"

definition karbid :: pystr where \<comment> \<open>key 'karbid' (carbide)\<close>
  "karbid =
     [0x43A, 0x430, 0x440, 0x431, 0x438, 0x434]"

definition key_skorost :: pystr where \<comment> \<open>entry key 'skorost' (speed)\<close>
  "key_skorost =
     [0x441, 0x43A, 0x43E, 0x440, 0x43E, 0x441, 0x442, 0x44C]"

definition key_podacha :: pystr where \<comment> \<open>entry key 'podacha' (feed)\<close>
  "key_podacha =
     [0x43F, 0x43E, 0x434, 0x430, 0x447, 0x430]"

definition key_glubina :: pystr where \<comment> \<open>entry key 'glubina' (depth)\<close>
  "key_glubina =
     [0x433, 0x43B, 0x443, 0x431, 0x438, 0x43D, 0x430]"

record entry =
  skorost :: "real \<times> real"
  podacha :: "real \<times> real"
  glubina :: "(real \<times> real) option"

datatype node = Entry entry | Floats "(real \<times> entry) list"

type_synonym 'a dict = "(pystr \<times> 'a) list"

definition cutting_parameters :: "node dict dict dict dict" where
  "cutting_parameters = [
     (stal, [
       (frezerovanie, [
         (monolitnaya, [
           (tsilindricheskaya, Entry \<lparr>skorost = (80, 120), podacha = (0.1, 0.3), glubina = Some (1, 4)\<rparr>),
           (sfericheskaya, Entry \<lparr>skorost = (70, 110), podacha = (0.08, 0.25), glubina = Some (1, 3)\<rparr>)]),
         (s_plastinami, [
           (tortsevaya, Entry \<lparr>skorost = (100, 150), podacha = (0.15, 0.35), glubina = Some (1, 5)\<rparr>),
           (pazovaya, Entry \<lparr>skorost = (90, 140), podacha = (0.1, 0.3), glubina = Some (1, 4)\<rparr>)])]),
       (tochenie, [
         (prokhodnoy, [
           (radius_plastiny, Floats [
             (0.4, \<lparr>skorost = (70, 100), podacha = (0.1, 0.3), glubina = Some (1, 5)\<rparr>),
             (0.8, \<lparr>skorost = (80, 110), podacha = (0.15, 0.35), glubina = Some (1, 5)\<rparr>),
             (1.2, \<lparr>skorost = (90, 120), podacha = (0.2, 0.4), glubina = Some (1, 5)\<rparr>)])]),
         (kanavochny, [
           (shirina_plastiny, Floats [
             (2.0, \<lparr>skorost = (40, 60), podacha = (0.05, 0.15), glubina = None\<rparr>),
             (3.0, \<lparr>skorost = (50, 70), podacha = (0.08, 0.2), glubina = None\<rparr>),
             (4.0, \<lparr>skorost = (60, 80), podacha = (0.1, 0.25), glubina = None\<rparr>)])])]),
       (sverlenie, [
         (monolitnoe, [
           (cp ''hss'', Entry \<lparr>skorost = (30, 50), podacha = (0.05, 0.12), glubina = Some (1, 8)\<rparr>),
           (cp ''hss-co'', Entry \<lparr>skorost = (40, 60), podacha = (0.08, 0.15), glubina = Some (1, 10)\<rparr>),
           (tverdy_splav, Entry \<lparr>skorost = (70, 100), podacha = (0.1, 0.2), glubina = Some (1, 12)\<rparr>)]),
         (so_smennymi_plastinami, [
           (karbid, Entry \<lparr>skorost = (70, 100), podacha = (0.1, 0.2), glubina = Some (1, 12)\<rparr>)])])]),
     (tsvetnoy_metall, [
       (frezerovanie, [
         (monolitnaya, [
           (tsilindricheskaya, Entry \<lparr>skorost = (150, 200), podacha = (0.2, 0.4), glubina = Some (2, 6)\<rparr>),
           (sfericheskaya, Entry \<lparr>skorost = (140, 180), podacha = (0.15, 0.35), glubina = Some (2, 5)\<rparr>)]),
         (s_plastinami, [
           (tortsevaya, Entry \<lparr>skorost = (180, 250), podacha = (0.25, 0.45), glubina = Some (2, 8)\<rparr>),
           (pazovaya, Entry \<lparr>skorost = (160, 220), podacha = (0.2, 0.4), glubina = Some (2, 6)\<rparr>)])]),
       (tochenie, [
         (prokhodnoy, [
           (radius_plastiny, Floats [
             (0.4, \<lparr>skorost = (120, 150), podacha = (0.15, 0.3), glubina = Some (2, 6)\<rparr>),
             (0.8, \<lparr>skorost = (130, 160), podacha = (0.2, 0.35), glubina = Some (2, 6)\<rparr>),
             (1.2, \<lparr>skorost = (140, 180), podacha = (0.25, 0.4), glubina = Some (2, 6)\<rparr>)])]),
         (kanavochny, [
           (shirina_plastiny, Floats [
             (2.0, \<lparr>skorost = (80, 120), podacha = (0.1, 0.2), glubina = None\<rparr>),
             (3.0, \<lparr>skorost = (90, 130), podacha = (0.15, 0.25), glubina = None\<rparr>),
             (4.0, \<lparr>skorost = (100, 140), podacha = (0.2, 0.3), glubina = None\<rparr>)])])]),
       (sverlenie, [
         (monolitnoe, [
           (cp ''hss'', Entry \<lparr>skorost = (60, 80), podacha = (0.1, 0.2), glubina = Some (2, 10)\<rparr>),
           (cp ''hss-co'', Entry \<lparr>skorost = (70, 90), podacha = (0.15, 0.25), glubina = Some (2, 12)\<rparr>),
           (tverdy_splav, Entry \<lparr>skorost = (100, 150), podacha = (0.2, 0.3), glubina = Some (2, 15)\<rparr>)]),
         (so_smennymi_plastinami, [
           (karbid, Entry \<lparr>skorost = (100, 150), podacha = (0.2, 0.3), glubina = Some (2, 15)\<rparr>)])])])]"

text \<open>The node that a complete path of four keys leads to, if the catalog has the path.\<close>

definition catalog_path :: "pystr \<Rightarrow> pystr \<Rightarrow> pystr \<Rightarrow> pystr \<Rightarrow> node option" where
  "catalog_path m op tt k =
     (case map_of cutting_parameters m of None \<Rightarrow> None | Some ops \<Rightarrow>
      (case map_of ops op of None \<Rightarrow> None | Some tools \<Rightarrow>
       (case map_of tools tt of None \<Rightarrow> None | Some subs \<Rightarrow> map_of subs k)))"

text \<open>Subscription \<open>d[k]\<close> raises \<open>KeyError\<close> on a missing key; \<open>d.get(k)\<close> is \<open>map_of d k\<close>.\<close>

definition getitem :: "'a dict \<Rightarrow> pystr \<Rightarrow> error + 'a" where
  "getitem d k = (case map_of d k of None \<Rightarrow> Inl KeyError | Some v \<Rightarrow> Inr v)"

text \<open>
  \<open>.get\<close> with a float on what the fourth level holds: the float-keyed dictionary is
  searched for an equal key (no non-finite float equals a key), an entry has string keys only.
\<close>

fun node_get :: "node \<Rightarrow> pyfloat \<Rightarrow> node option" where
  "node_get (Floats d) (Fin x) = map_option Entry (map_of d x)"
| "node_get _ _ = None"

fun truthy_node :: "node option \<Rightarrow> bool" where
  "truthy_node None = False"
| "truthy_node (Some (Entry e)) = True"
| "truthy_node (Some (Floats d)) = (d \<noteq> [])"

section \<open>The calculations\<close>

definition calculate_cutting_width :: "pyfloat \<Rightarrow> pyfloat \<Rightarrow> pystr \<Rightarrow> error + pyfloat option" where
  "calculate_cutting_width diameter depth_of_cut tool_subtype =
     (if tool_subtype = tsilindricheskaya then Inr (Some (fmul (Fin 0.5) diameter))
      else if tool_subtype = sfericheskaya then
        (case fsqrt (fmul depth_of_cut (fsub diameter depth_of_cut)) of
           Inl e \<Rightarrow> Inl e
         | Inr r \<Rightarrow> Inr (Some (fmul (Fin 2) r)))
      else Inr None)"

text \<open>
  Rounding to double precision, to nearest with ties to even: a double is an integer of at
  most 53 bits times a power of two whose exponent is at least \<open>-1074\<close>, so a real is
  rounded to the nearest integer multiple of \<open>2 powr e\<close>, where \<open>e\<close> is 52 below the
  exponent of its leading bit and at least \<open>-1074\<close>. A result of magnitude \<open>2 ^ 1024\<close> or
  more is the infinity of its sign. A decimal literal of the source is the double nearest
  to it.
\<close>

definition ulp_exponent :: "real \<Rightarrow> int" where
  "ulp_exponent x = max (\<lfloor>log 2 \<bar>x\<bar>\<rfloor> - 52) (- 1074)"

definition round_to_double :: "real \<Rightarrow> real" where
  "round_to_double x =
     of_int (round_half_even (x / 2 powr of_int (ulp_exponent x)))
       * 2 powr of_int (ulp_exponent x)"

definition ieee_round :: "real \<Rightarrow> pyfloat" where
  "ieee_round x =
     (let y = round_to_double x
      in if 2 ^ 1024 \<le> \<bar>y\<bar> then (if 0 < x then PInf else NInf) else Fin y)"

fun fmul_ieee :: "pyfloat \<Rightarrow> pyfloat \<Rightarrow> pyfloat" where
  "fmul_ieee (Fin x) (Fin y) = ieee_round (x * y)"
| "fmul_ieee a b = fmul a b"

definition calculate_overlap :: "pyfloat \<Rightarrow> pyfloat \<Rightarrow> int option" where
  "calculate_overlap diameter depth_of_cut =
     (if fle depth_of_cut (fmul_ieee (ieee_round 0.3) diameter) then Some 100
      else if fle depth_of_cut (fmul_ieee (ieee_round 0.5) diameter) then Some 70
      else if fle depth_of_cut (fmul_ieee (ieee_round 0.7) diameter) then Some 50
      else if fle depth_of_cut diameter then Some 30
      else if fle depth_of_cut (fmul_ieee (Fin 2) diameter) then Some 10
      else None)"


section \<open>The conversation\<close>

subsection \<open>States, session data and replies\<close>

text \<open>
  The states of the conversation are the nine constants of the source; \<open>END\<close> is the
  library's \<open>ConversationHandler.END\<close>.
\<close>

datatype state =
  MATERIAL | OPERATION | TOOL_TYPE | TOOL_SUBTYPE | DIAMETER | NUMBER_OF_TEETH |
  DEPTH_OF_CUT | RADIUS | GROOVE_WIDTH | END

text \<open>
  \<open>context.user_data\<close> is a dictionary that the handlers only ever use with nine fixed
  keys: a record of optional fields, \<open>None\<close> for an absent key.
\<close>

record user_data =
  ud_material :: "pystr option"
  ud_operation :: "pystr option"
  ud_tool_type :: "pystr option"
  ud_tool_subtype :: "pystr option"
  ud_diameter :: "pyfloat option"
  ud_number_of_teeth :: "int option"
  ud_depth_of_cut :: "pyfloat option"
  ud_radius :: "pyfloat option"
  ud_groove_width :: "pyfloat option"

definition empty_user_data :: user_data where
  "empty_user_data =
     \<lparr>ud_material = None, ud_operation = None, ud_tool_type = None, ud_tool_subtype = None,
      ud_diameter = None, ud_number_of_teeth = None, ud_depth_of_cut = None,
      ud_radius = None, ud_groove_width = None\<rparr>"

text \<open>
  A reply is the text passed to \<open>reply_text\<close> with the rows of the reply keyboard, if one
  is given. A text is a sequence of pieces, because two messages and one keyboard show a
  float through \<open>str\<close>, whose shortest-digits output has no counterpart on the reals:
  such a float stays a \<open>Repr\<close> piece.
\<close>

datatype piece = Lit pystr | Repr pyfloat

type_synonym pytext = "piece list"

type_synonym reply = "pytext \<times> pytext list list option"

definition keyboard :: "pytext list \<Rightarrow> pytext list list" where
  "keyboard labels = map (\<lambda>l. [l]) labels @ [[[Lit (cp ''/start'')]]]"

definition start_keyboard :: "pytext list list" where
  "start_keyboard = [[[Lit (cp ''/start'')]]]"

text \<open>
  What a handler does: the value it returns (\<open>None\<close> when it falls off its end) or the
  exception it raises, the session data as it has left them, and the replies it has sent.
\<close>

type_synonym result = "(error + state option) \<times> user_data \<times> reply list"

subsection \<open>The texts of the replies\<close>

definition msg_start :: pystr where \<comment> \<open>start: greeting, asks for the workpiece material\<close>
  "msg_start =
     [0x41F, 0x440, 0x438, 0x432, 0x435, 0x442, 0x21, 0x20, 0x42F, 0x20, 0x43F, 0x43E,
     0x43C, 0x43E, 0x433, 0x443, 0x20, 0x432, 0x430, 0x43C, 0x20, 0x432, 0x44B, 0x431,
     0x440, 0x430, 0x442, 0x44C, 0x20, 0x43E, 0x43F, 0x442, 0x438, 0x43C, 0x430, 0x43B,
     0x44C, 0x43D, 0x44B, 0x435, 0x20, 0x440, 0x435, 0x436, 0x438, 0x43C, 0x44B, 0x20,
     0x440, 0x435, 0x437, 0x430, 0x43D, 0x438, 0x44F, 0x2E, 0x20, 0x414, 0x43B, 0x44F,
     0x20, 0x43D, 0x430, 0x447, 0x430, 0x43B, 0x430, 0x20, 0x432, 0x44B, 0x431, 0x435,
     0x440, 0x438, 0x442, 0x435, 0x20, 0x43C, 0x430, 0x442, 0x435, 0x440, 0x438, 0x430,
     0x43B, 0x20, 0x437, 0x430, 0x433, 0x43E, 0x442, 0x43E, 0x432, 0x43A, 0x438, 0x3A]"

definition msg_material_ok :: pystr where \<comment> \<open>material: asks for the operation; the material and ':' follow\<close>
  "msg_material_ok =
     [0x41E, 0x442, 0x43B, 0x438, 0x447, 0x43D, 0x43E, 0x21, 0x20, 0x422, 0x435, 0x43F,
     0x435, 0x440, 0x44C, 0x20, 0x432, 0x44B, 0x431, 0x435, 0x440, 0x438, 0x442, 0x435,
     0x20, 0x442, 0x438, 0x43F, 0x20, 0x43E, 0x43F, 0x435, 0x440, 0x430, 0x446, 0x438,
     0x438, 0x20, 0x434, 0x43B, 0x44F, 0x20, 0x43C, 0x430, 0x442, 0x435, 0x440, 0x438,
     0x430, 0x43B, 0x430, 0x20]"

definition msg_material_not_found :: pystr where \<comment> \<open>material: no parameters for this material\<close>
  "msg_material_not_found =
     [0x418, 0x437, 0x432, 0x438, 0x43D, 0x438, 0x442, 0x435, 0x2C, 0x20, 0x44F, 0x20,
     0x43D, 0x435, 0x20, 0x43C, 0x43E, 0x433, 0x443, 0x20, 0x43D, 0x430, 0x439, 0x442,
     0x438, 0x20, 0x43F, 0x430, 0x440, 0x430, 0x43C, 0x435, 0x442, 0x440, 0x44B, 0x20,
     0x434, 0x43B, 0x44F, 0x20, 0x44D, 0x442, 0x43E, 0x433, 0x43E, 0x20, 0x43C, 0x430,
     0x442, 0x435, 0x440, 0x438, 0x430, 0x43B, 0x430, 0x2E, 0x20, 0x41F, 0x43E, 0x43F,
     0x440, 0x43E, 0x431, 0x443, 0x439, 0x442, 0x435, 0x20, 0x441, 0x43D, 0x43E, 0x432,
     0x430, 0x2E]"

definition msg_operation_ok :: pystr where \<comment> \<open>operation: asks for the tool type; the operation and ':' follow\<close>
  "msg_operation_ok =
     [0x412, 0x44B, 0x431, 0x435, 0x440, 0x438, 0x442, 0x435, 0x20, 0x442, 0x438, 0x43F,
     0x20, 0x438, 0x43D, 0x441, 0x442, 0x440, 0x443, 0x43C, 0x435, 0x43D, 0x442, 0x430,
     0x20, 0x434, 0x43B, 0x44F, 0x20, 0x43E, 0x43F, 0x435, 0x440, 0x430, 0x446, 0x438,
     0x438, 0x20]"

definition msg_operation_not_found :: pystr where \<comment> \<open>operation: no parameters for this operation\<close>
  "msg_operation_not_found =
     [0x418, 0x437, 0x432, 0x438, 0x43D, 0x438, 0x442, 0x435, 0x2C, 0x20, 0x44F, 0x20,
     0x43D, 0x435, 0x20, 0x43C, 0x43E, 0x433, 0x443, 0x20, 0x43D, 0x430, 0x439, 0x442,
     0x438, 0x20, 0x43F, 0x430, 0x440, 0x430, 0x43C, 0x435, 0x442, 0x440, 0x44B, 0x20,
     0x434, 0x43B, 0x44F, 0x20, 0x44D, 0x442, 0x43E, 0x439, 0x20, 0x43E, 0x43F, 0x435,
     0x440, 0x430, 0x446, 0x438, 0x438, 0x2E, 0x20, 0x41F, 0x43E, 0x43F, 0x440, 0x43E,
     0x431, 0x443, 0x439, 0x442, 0x435, 0x20, 0x441, 0x43D, 0x43E, 0x432, 0x430, 0x2E]"

definition msg_choose_mill :: pystr where \<comment> \<open>tool_type: asks for the mill subtype\<close>
  "msg_choose_mill =
     [0x412, 0x44B, 0x431, 0x435, 0x440, 0x438, 0x442, 0x435, 0x20, 0x442, 0x438, 0x43F,
     0x20, 0x444, 0x440, 0x435, 0x437, 0x44B, 0x3A]"

definition msg_enter_insert_width :: pystr where \<comment> \<open>tool_type: asks for the insert width in mm\<close>
  "msg_enter_insert_width =
     [0x412, 0x432, 0x435, 0x434, 0x438, 0x442, 0x435, 0x20, 0x448, 0x438, 0x440, 0x438,
     0x43D, 0x443, 0x20, 0x43F, 0x43B, 0x430, 0x441, 0x442, 0x438, 0x43D, 0x44B, 0x20,
     0x28, 0x432, 0x20, 0x43C, 0x43C, 0x29, 0x3A]"

definition msg_choose_insert_radius :: pystr where \<comment> \<open>tool_type: asks for the insert radius in mm\<close>
  "msg_choose_insert_radius =
     [0x412, 0x44B, 0x431, 0x435, 0x440, 0x438, 0x442, 0x435, 0x20, 0x440, 0x430, 0x434,
     0x438, 0x443, 0x441, 0x20, 0x43F, 0x43B, 0x430, 0x441, 0x442, 0x438, 0x43D, 0x44B,
     0x20, 0x28, 0x432, 0x20, 0x43C, 0x43C, 0x29, 0x3A]"

definition msg_choose_drill :: pystr where \<comment> \<open>tool_type: asks for the drill subtype\<close>
  "msg_choose_drill =
     [0x412, 0x44B, 0x431, 0x435, 0x440, 0x438, 0x442, 0x435, 0x20, 0x442, 0x438, 0x43F,
     0x20, 0x441, 0x432, 0x435, 0x440, 0x43B, 0x430, 0x3A]"

definition msg_enter_drill_diameter :: pystr where \<comment> \<open>asks for the drill diameter in mm\<close>
  "msg_enter_drill_diameter =
     [0x412, 0x432, 0x435, 0x434, 0x438, 0x442, 0x435, 0x20, 0x434, 0x438, 0x430, 0x43C,
     0x435, 0x442, 0x440, 0x20, 0x441, 0x432, 0x435, 0x440, 0x43B, 0x430, 0x20, 0x28,
     0x432, 0x20, 0x43C, 0x43C, 0x29, 0x3A]"

definition msg_tool_type_not_found :: pystr where \<comment> \<open>tool_type: no parameters for this tool type\<close>
  "msg_tool_type_not_found =
     [0x418, 0x437, 0x432, 0x438, 0x43D, 0x438, 0x442, 0x435, 0x2C, 0x20, 0x44F, 0x20,
     0x43D, 0x435, 0x20, 0x43C, 0x43E, 0x433, 0x443, 0x20, 0x43D, 0x430, 0x439, 0x442,
     0x438, 0x20, 0x43F, 0x430, 0x440, 0x430, 0x43C, 0x435, 0x442, 0x440, 0x44B, 0x20,
     0x434, 0x43B, 0x44F, 0x20, 0x44D, 0x442, 0x43E, 0x433, 0x43E, 0x20, 0x442, 0x438,
     0x43F, 0x430, 0x20, 0x438, 0x43D, 0x441, 0x442, 0x440, 0x443, 0x43C, 0x435, 0x43D,
     0x442, 0x430, 0x2E, 0x20, 0x41F, 0x43E, 0x43F, 0x440, 0x43E, 0x431, 0x443, 0x439,
     0x442, 0x435, 0x20, 0x441, 0x43D, 0x43E, 0x432, 0x430, 0x2E]"

definition msg_enter_mill_diameter :: pystr where \<comment> \<open>tool_subtype: asks for the mill diameter in mm\<close>
  "msg_enter_mill_diameter =
     [0x412, 0x432, 0x435, 0x434, 0x438, 0x442, 0x435, 0x20, 0x434, 0x438, 0x430, 0x43C,
     0x435, 0x442, 0x440, 0x20, 0x444, 0x440, 0x435, 0x437, 0x44B, 0x20, 0x28, 0x432, 0x20,
     0x43C, 0x43C, 0x29, 0x3A]"

definition msg_subtype_error :: pystr where \<comment> \<open>tool_subtype: an error occurred\<close>
  "msg_subtype_error =
     [0x418, 0x437, 0x432, 0x438, 0x43D, 0x438, 0x442, 0x435, 0x2C, 0x20, 0x43F, 0x440,
     0x43E, 0x438, 0x437, 0x43E, 0x448, 0x43B, 0x430, 0x20, 0x43E, 0x448, 0x438, 0x431,
     0x43A, 0x430, 0x2E, 0x20, 0x41F, 0x43E, 0x43F, 0x440, 0x43E, 0x431, 0x443, 0x439,
     0x442, 0x435, 0x20, 0x441, 0x43D, 0x43E, 0x432, 0x430, 0x2E]"

definition msg_enter_teeth :: pystr where \<comment> \<open>diameter: asks for the number of teeth\<close>
  "msg_enter_teeth =
     [0x412, 0x432, 0x435, 0x434, 0x438, 0x442, 0x435, 0x20, 0x43A, 0x43E, 0x43B, 0x438,
     0x447, 0x435, 0x441, 0x442, 0x432, 0x43E, 0x20, 0x437, 0x443, 0x431, 0x44C, 0x435,
     0x432, 0x20, 0x444, 0x440, 0x435, 0x437, 0x44B, 0x3A]"

definition msg_no_params :: pystr where \<comment> \<open>error: the cutting parameters could not be obtained\<close>
  "msg_no_params =
     [0x41E, 0x448, 0x438, 0x431, 0x43A, 0x430, 0x3A, 0x20, 0x43D, 0x435, 0x20, 0x443,
     0x434, 0x430, 0x43B, 0x43E, 0x441, 0x44C, 0x20, 0x43F, 0x43E, 0x43B, 0x443, 0x447,
     0x438, 0x442, 0x44C, 0x20, 0x43F, 0x430, 0x440, 0x430, 0x43C, 0x435, 0x442, 0x440,
     0x44B, 0x20, 0x440, 0x435, 0x437, 0x430, 0x43D, 0x438, 0x44F, 0x2E]"

definition msg_enter_depth :: pystr where \<comment> \<open>asks for the depth of cut in mm\<close>
  "msg_enter_depth =
     [0x412, 0x432, 0x435, 0x434, 0x438, 0x442, 0x435, 0x20, 0x433, 0x43B, 0x443, 0x431,
     0x438, 0x43D, 0x443, 0x20, 0x440, 0x435, 0x437, 0x430, 0x43D, 0x438, 0x44F, 0x20,
     0x432, 0x20, 0x43C, 0x43C, 0x20, 0x28, 0x438, 0x441, 0x43F, 0x43E, 0x43B, 0x44C,
     0x437, 0x443, 0x439, 0x442, 0x435, 0x20, 0x442, 0x43E, 0x447, 0x43A, 0x443, 0x20,
     0x434, 0x43B, 0x44F, 0x20, 0x434, 0x435, 0x441, 0x44F, 0x442, 0x438, 0x447, 0x43D,
     0x44B, 0x445, 0x20, 0x437, 0x43D, 0x430, 0x447, 0x435, 0x43D, 0x438, 0x439, 0x29,
     0x3A]"

definition msg_diameter_not_numeric :: pystr where \<comment> \<open>diameter: please enter a numeric value\<close>
  "msg_diameter_not_numeric =
     [0x41F, 0x43E, 0x436, 0x430, 0x43B, 0x443, 0x439, 0x441, 0x442, 0x430, 0x2C, 0x20,
     0x432, 0x432, 0x435, 0x434, 0x438, 0x442, 0x435, 0x20, 0x447, 0x438, 0x441, 0x43B,
     0x43E, 0x432, 0x43E, 0x435, 0x20, 0x437, 0x43D, 0x430, 0x447, 0x435, 0x43D, 0x438,
     0x435, 0x20, 0x434, 0x43B, 0x44F, 0x20, 0x434, 0x438, 0x430, 0x43C, 0x435, 0x442,
     0x440, 0x430, 0x20, 0x28, 0x438, 0x441, 0x43F, 0x43E, 0x43B, 0x44C, 0x437, 0x443,
     0x439, 0x442, 0x435, 0x20, 0x442, 0x43E, 0x447, 0x43A, 0x443, 0x20, 0x434, 0x43B,
     0x44F, 0x20, 0x434, 0x435, 0x441, 0x44F, 0x442, 0x438, 0x447, 0x43D, 0x44B, 0x445,
     0x20, 0x437, 0x43D, 0x430, 0x447, 0x435, 0x43D, 0x438, 0x439, 0x29, 0x2E]"

definition msg_teeth_not_integer :: pystr where \<comment> \<open>number_of_teeth: please enter an integer\<close>
  "msg_teeth_not_integer =
     [0x41F, 0x43E, 0x436, 0x430, 0x43B, 0x443, 0x439, 0x441, 0x442, 0x430, 0x2C, 0x20,
     0x432, 0x432, 0x435, 0x434, 0x438, 0x442, 0x435, 0x20, 0x446, 0x435, 0x43B, 0x43E,
     0x435, 0x20, 0x447, 0x438, 0x441, 0x43B, 0x43E, 0x20, 0x434, 0x43B, 0x44F, 0x20,
     0x43A, 0x43E, 0x43B, 0x438, 0x447, 0x435, 0x441, 0x442, 0x432, 0x430, 0x20, 0x437,
     0x443, 0x431, 0x44C, 0x435, 0x432, 0x2E]"

definition msg_depth_not_numeric :: pystr where \<comment> \<open>depth_of_cut: please enter a numeric value\<close>
  "msg_depth_not_numeric =
     [0x41F, 0x43E, 0x436, 0x430, 0x43B, 0x443, 0x439, 0x441, 0x442, 0x430, 0x2C, 0x20,
     0x432, 0x432, 0x435, 0x434, 0x438, 0x442, 0x435, 0x20, 0x447, 0x438, 0x441, 0x43B,
     0x43E, 0x432, 0x43E, 0x435, 0x20, 0x437, 0x43D, 0x430, 0x447, 0x435, 0x43D, 0x438,
     0x435, 0x20, 0x434, 0x43B, 0x44F, 0x20, 0x433, 0x43B, 0x443, 0x431, 0x438, 0x43D,
     0x44B, 0x20, 0x440, 0x435, 0x437, 0x430, 0x43D, 0x438, 0x44F, 0x20, 0x28, 0x438,
     0x441, 0x43F, 0x43E, 0x43B, 0x44C, 0x437, 0x443, 0x439, 0x442, 0x435, 0x20, 0x442,
     0x43E, 0x447, 0x43A, 0x443, 0x20, 0x434, 0x43B, 0x44F, 0x20, 0x434, 0x435, 0x441,
     0x44F, 0x442, 0x438, 0x447, 0x43D, 0x44B, 0x445, 0x20, 0x437, 0x43D, 0x430, 0x447,
     0x435, 0x43D, 0x438, 0x439, 0x29, 0x2E]"

definition msg_radius_not_numeric :: pystr where \<comment> \<open>radius: please enter a numeric value\<close>
  "msg_radius_not_numeric =
     [0x41F, 0x43E, 0x436, 0x430, 0x43B, 0x443, 0x439, 0x441, 0x442, 0x430, 0x2C, 0x20,
     0x432, 0x432, 0x435, 0x434, 0x438, 0x442, 0x435, 0x20, 0x447, 0x438, 0x441, 0x43B,
     0x43E, 0x432, 0x43E, 0x435, 0x20, 0x437, 0x43D, 0x430, 0x447, 0x435, 0x43D, 0x438,
     0x435, 0x20, 0x434, 0x43B, 0x44F, 0x20, 0x440, 0x430, 0x434, 0x438, 0x443, 0x441,
     0x430, 0x20, 0x28, 0x438, 0x441, 0x43F, 0x43E, 0x43B, 0x44C, 0x437, 0x443, 0x439,
     0x442, 0x435, 0x20, 0x442, 0x43E, 0x447, 0x43A, 0x443, 0x20, 0x434, 0x43B, 0x44F,
     0x20, 0x434, 0x435, 0x441, 0x44F, 0x442, 0x438, 0x447, 0x43D, 0x44B, 0x445, 0x20,
     0x437, 0x43D, 0x430, 0x447, 0x435, 0x43D, 0x438, 0x439, 0x29, 0x2E]"

definition msg_groove_not_numeric :: pystr where \<comment> \<open>groove_width: please enter a numeric value\<close>
  "msg_groove_not_numeric =
     [0x41F, 0x43E, 0x436, 0x430, 0x43B, 0x443, 0x439, 0x441, 0x442, 0x430, 0x2C, 0x20,
     0x432, 0x432, 0x435, 0x434, 0x438, 0x442, 0x435, 0x20, 0x447, 0x438, 0x441, 0x43B,
     0x43E, 0x432, 0x43E, 0x435, 0x20, 0x437, 0x43D, 0x430, 0x447, 0x435, 0x43D, 0x438,
     0x435, 0x20, 0x434, 0x43B, 0x44F, 0x20, 0x448, 0x438, 0x440, 0x438, 0x43D, 0x44B,
     0x20, 0x43A, 0x430, 0x43D, 0x430, 0x432, 0x43A, 0x438, 0x20, 0x28, 0x438, 0x441,
     0x43F, 0x43E, 0x43B, 0x44C, 0x437, 0x443, 0x439, 0x442, 0x435, 0x20, 0x442, 0x43E,
     0x447, 0x43A, 0x443, 0x20, 0x434, 0x43B, 0x44F, 0x20, 0x434, 0x435, 0x441, 0x44F,
     0x442, 0x438, 0x447, 0x43D, 0x44B, 0x445, 0x20, 0x437, 0x43D, 0x430, 0x447, 0x435,
     0x43D, 0x438, 0x439, 0x29, 0x2E]"

definition txt_recommended_for :: pystr where \<comment> \<open>'Recommended parameters for '\<close>
  "txt_recommended_for =
     [0x420, 0x435, 0x43A, 0x43E, 0x43C, 0x435, 0x43D, 0x434, 0x43E, 0x432, 0x430, 0x43D,
     0x43D, 0x44B, 0x435, 0x20, 0x43F, 0x430, 0x440, 0x430, 0x43C, 0x435, 0x442, 0x440,
     0x44B, 0x20, 0x434, 0x43B, 0x44F, 0x20]"

definition txt_with_insert_radius :: pystr where \<comment> \<open>') with an insert of radius '\<close>
  "txt_with_insert_radius =
     [0x29, 0x20, 0x441, 0x20, 0x43F, 0x43B, 0x430, 0x441, 0x442, 0x438, 0x43D, 0x43E,
     0x439, 0x20, 0x440, 0x430, 0x434, 0x438, 0x443, 0x441, 0x43E, 0x43C, 0x20]"

definition txt_with_groove_width :: pystr where \<comment> \<open>') with groove width '\<close>
  "txt_with_groove_width =
     [0x29, 0x20, 0x441, 0x20, 0x448, 0x438, 0x440, 0x438, 0x43D, 0x43E, 0x439, 0x20,
     0x43A, 0x430, 0x43D, 0x430, 0x432, 0x43A, 0x438, 0x20]"

definition txt_mm_colon :: pystr where \<comment> \<open>' mm:'\<close>
  "txt_mm_colon =
     [0x20, 0x43C, 0x43C, 0x3A]"

definition txt_speed :: pystr where \<comment> \<open>'Cutting speed: '\<close>
  "txt_speed =
     [0x421, 0x43A, 0x43E, 0x440, 0x43E, 0x441, 0x442, 0x44C, 0x20, 0x440, 0x435, 0x437,
     0x430, 0x43D, 0x438, 0x44F, 0x3A, 0x20]"

definition txt_m_min :: pystr where \<comment> \<open>' m/min'\<close>
  "txt_m_min =
     [0x20, 0x43C, 0x2F, 0x43C, 0x438, 0x43D]"

definition txt_feed :: pystr where \<comment> \<open>'Feed: '\<close>
  "txt_feed =
     [0x41F, 0x43E, 0x434, 0x430, 0x447, 0x430, 0x3A, 0x20]"

definition txt_mm_rev :: pystr where \<comment> \<open>' mm/rev'\<close>
  "txt_mm_rev =
     [0x20, 0x43C, 0x43C, 0x2F, 0x43E, 0x431]"

definition txt_depth :: pystr where \<comment> \<open>'Depth of cut: '\<close>
  "txt_depth =
     [0x413, 0x43B, 0x443, 0x431, 0x438, 0x43D, 0x430, 0x20, 0x440, 0x435, 0x437, 0x430,
     0x43D, 0x438, 0x44F, 0x3A, 0x20]"

definition txt_mm :: pystr where \<comment> \<open>' mm'\<close>
  "txt_mm =
     [0x20, 0x43C, 0x43C]"

definition msg_new_calculation :: pystr where \<comment> \<open>for a new calculation press /start\<close>
  "msg_new_calculation =
     [0x414, 0x43B, 0x44F, 0x20, 0x43D, 0x43E, 0x432, 0x43E, 0x433, 0x43E, 0x20, 0x440,
     0x430, 0x441, 0x447, 0x435, 0x442, 0x430, 0x20, 0x43D, 0x430, 0x436, 0x43C, 0x438,
     0x442, 0x435, 0x20, 0x2F, 0x73, 0x74, 0x61, 0x72, 0x74]"

definition txt_unknown_material :: pystr where \<comment> \<open>default 'unknown material'\<close>
  "txt_unknown_material =
     [0x43D, 0x435, 0x438, 0x437, 0x432, 0x435, 0x441, 0x442, 0x43D, 0x44B, 0x439, 0x20,
     0x43C, 0x430, 0x442, 0x435, 0x440, 0x438, 0x430, 0x43B]"

definition txt_unknown_operation :: pystr where \<comment> \<open>default 'unknown operation'\<close>
  "txt_unknown_operation =
     [0x43D, 0x435, 0x438, 0x437, 0x432, 0x435, 0x441, 0x442, 0x43D, 0x430, 0x44F, 0x20,
     0x43E, 0x43F, 0x435, 0x440, 0x430, 0x446, 0x438, 0x44F]"

definition txt_unknown_tool_type :: pystr where \<comment> \<open>default 'unknown tool type'\<close>
  "txt_unknown_tool_type =
     [0x43D, 0x435, 0x438, 0x437, 0x432, 0x435, 0x441, 0x442, 0x43D, 0x44B, 0x439, 0x20,
     0x442, 0x438, 0x43F, 0x20, 0x438, 0x43D, 0x441, 0x442, 0x440, 0x443, 0x43C, 0x435,
     0x43D, 0x442, 0x430]"

definition txt_with_tool :: pystr where \<comment> \<open>') with the tool '\<close>
  "txt_with_tool =
     [0x29, 0x20, 0x441, 0x20, 0x438, 0x43D, 0x441, 0x442, 0x440, 0x443, 0x43C, 0x435,
     0x43D, 0x442, 0x43E, 0x43C, 0x20]"

definition txt_feed_per_minute :: pystr where \<comment> \<open>'Feed per minute: '\<close>
  "txt_feed_per_minute =
     [0x41C, 0x438, 0x43D, 0x443, 0x442, 0x43D, 0x430, 0x44F, 0x20, 0x43F, 0x43E, 0x434,
     0x430, 0x447, 0x430, 0x3A, 0x20]"

definition txt_mm_min :: pystr where \<comment> \<open>' mm/min'\<close>
  "txt_mm_min =
     [0x20, 0x43C, 0x43C, 0x2F, 0x43C, 0x438, 0x43D]"

definition txt_cutting_width :: pystr where \<comment> \<open>'Cutting width: '\<close>
  "txt_cutting_width =
     [0x428, 0x438, 0x440, 0x438, 0x43D, 0x430, 0x20, 0x440, 0x435, 0x437, 0x430, 0x43D,
     0x438, 0x44F, 0x3A, 0x20]"

definition txt_spindle :: pystr where \<comment> \<open>'Spindle speed: '\<close>
  "txt_spindle =
     [0x427, 0x430, 0x441, 0x442, 0x43E, 0x442, 0x430, 0x20, 0x432, 0x440, 0x430, 0x449,
     0x435, 0x43D, 0x438, 0x44F, 0x20, 0x448, 0x43F, 0x438, 0x43D, 0x434, 0x435, 0x43B,
     0x44F, 0x3A, 0x20]"

definition txt_rev_min :: pystr where \<comment> \<open>' rev/min'\<close>
  "txt_rev_min =
     [0x20, 0x43E, 0x431, 0x2F, 0x43C, 0x438, 0x43D]"

definition txt_support :: pystr where \<comment> \<open>the closing lines of format_result (thanks, support account, feedback address)\<close>
  "txt_support =
     [0xA, 0x415, 0x441, 0x43B, 0x438, 0x20, 0x432, 0x430, 0x43C, 0x20, 0x43F, 0x43E,
     0x43D, 0x440, 0x430, 0x432, 0x438, 0x43B, 0x441, 0x44F, 0x20, 0x431, 0x43E, 0x442,
     0x2C, 0x20, 0x432, 0x44B, 0x20, 0x43C, 0x43E, 0x436, 0x435, 0x442, 0x435, 0x20, 0x43F,
     0x43E, 0x434, 0x434, 0x435, 0x440, 0x436, 0x430, 0x442, 0x44C, 0x20, 0x430, 0x432,
     0x442, 0x43E, 0x440, 0x430, 0x20, 0x414, 0x43C, 0x438, 0x442, 0x440, 0x438, 0x439,
     0x20, 0x41F, 0x2E, 0x3A, 0xA, 0x1F4B3, 0x20, 0x421, 0x447, 0x435, 0x442, 0x20, 0x421,
     0x431, 0x435, 0x440, 0x431, 0x430, 0x43D, 0x43A, 0x20, 0x434, 0x43B, 0x44F, 0x20,
     0x43F, 0x43E, 0x434, 0x434, 0x435, 0x440, 0x436, 0x43A, 0x438, 0x3A, 0x20, 0x32, 0x32,
     0x30, 0x32, 0x20, 0x32, 0x30, 0x38, 0x31, 0x20, 0x36, 0x32, 0x34, 0x32, 0x20, 0x36,
     0x30, 0x33, 0x36, 0xA, 0x1F4E7, 0x20, 0x41E, 0x431, 0x440, 0x430, 0x442, 0x43D, 0x430,
     0x44F, 0x20, 0x441, 0x432, 0x44F, 0x437, 0x44C, 0x3A, 0x20, 0x66, 0x65, 0x74, 0x61,
     0x6D, 0x6C, 0x65, 0x74, 0x40, 0x79, 0x61, 0x6E, 0x64, 0x65, 0x78, 0x2E, 0x72, 0x75]"

definition msg_cancelled :: pystr where \<comment> \<open>cancel: operation cancelled\<close>
  "msg_cancelled =
     [0x41E, 0x43F, 0x435, 0x440, 0x430, 0x446, 0x438, 0x44F, 0x20, 0x43E, 0x442, 0x43C,
     0x435, 0x43D, 0x435, 0x43D, 0x430, 0x2E]"

subsection \<open>Catalog lookup and the result message\<close>

definition get_cutting_parameters_try ::
  "pystr \<Rightarrow> pystr \<Rightarrow> pystr \<Rightarrow> pystr option \<Rightarrow> pyfloat option \<Rightarrow> pyfloat option \<Rightarrow> error + node option" where
  "get_cutting_parameters_try m op tt tool_subtype radius groove_width =
     (if op = frezerovanie then
        (if (tt = monolitnaya \<or> tt = s_plastinami) \<and> truthy_str tool_subtype then
           (case getitem cutting_parameters m of Inl e \<Rightarrow> Inl e | Inr ops \<Rightarrow>
            (case getitem ops op of Inl e \<Rightarrow> Inl e | Inr tools \<Rightarrow>
             (case getitem tools tt of Inl e \<Rightarrow> Inl e | Inr subs \<Rightarrow>
              (case tool_subtype of None \<Rightarrow> Inr None | Some st \<Rightarrow> Inr (map_of subs st)))))
         else Inr None)
      else if op = tochenie then
        (if tt = prokhodnoy \<and> truthy_float radius then
           (case getitem cutting_parameters m of Inl e \<Rightarrow> Inl e | Inr ops \<Rightarrow>
            (case getitem ops op of Inl e \<Rightarrow> Inl e | Inr tools \<Rightarrow>
             (case getitem tools tt of Inl e \<Rightarrow> Inl e | Inr subs \<Rightarrow>
              (case getitem subs radius_plastiny of Inl e \<Rightarrow> Inl e | Inr nd \<Rightarrow>
               (case radius of None \<Rightarrow> Inr None | Some r \<Rightarrow> Inr (node_get nd r))))))
         else if tt = kanavochny \<and> truthy_float groove_width then
           (case getitem cutting_parameters m of Inl e \<Rightarrow> Inl e | Inr ops \<Rightarrow>
            (case getitem ops op of Inl e \<Rightarrow> Inl e | Inr tools \<Rightarrow>
             (case getitem tools tt of Inl e \<Rightarrow> Inl e | Inr subs \<Rightarrow>
              (case getitem subs shirina_plastiny of Inl e \<Rightarrow> Inl e | Inr nd \<Rightarrow>
               (case groove_width of None \<Rightarrow> Inr None | Some w \<Rightarrow> Inr (node_get nd w))))))
         else Inr None)
      else if op = sverlenie then
        (if tt = monolitnoe \<and> truthy_str tool_subtype then
           (case getitem cutting_parameters m of Inl e \<Rightarrow> Inl e | Inr ops \<Rightarrow>
            (case getitem ops op of Inl e \<Rightarrow> Inl e | Inr tools \<Rightarrow>
             (case getitem tools tt of Inl e \<Rightarrow> Inl e | Inr subs \<Rightarrow>
              (case tool_subtype of None \<Rightarrow> Inr None | Some st \<Rightarrow> Inr (map_of subs st)))))
         else if tt = so_smennymi_plastinami then
           (case getitem cutting_parameters m of Inl e \<Rightarrow> Inl e | Inr ops \<Rightarrow>
            (case getitem ops op of Inl e \<Rightarrow> Inl e | Inr tools \<Rightarrow>
             (case getitem tools tt of Inl e \<Rightarrow> Inl e | Inr subs \<Rightarrow>
              Inr (map_of subs karbid))))
         else Inr None)
      else Inr None)"

text \<open>
  The body above is the \<open>try\<close> block; \<open>except KeyError\<close> turns that one exception into the
  result \<open>None\<close>, and any other exception would pass through.
\<close>

definition get_cutting_parameters :: "user_data \<Rightarrow> error + node option" where
  "get_cutting_parameters ud =
     (if \<not> truthy_str (ud_material ud) \<or> \<not> truthy_str (ud_operation ud)
         \<or> \<not> truthy_str (ud_tool_type ud) then Inr None
      else
        (case (ud_material ud, ud_operation ud, ud_tool_type ud) of
           (Some m, Some op, Some tt) \<Rightarrow>
             (case get_cutting_parameters_try m op tt (ud_tool_subtype ud) (ud_radius ud)
                     (ud_groove_width ud) of
                Inl KeyError \<Rightarrow> Inr None
              | r \<Rightarrow> r)
         | _ \<Rightarrow> Inr None))"

text \<open>
  \<open>format_result\<close> builds the terminal message. The division of the displayed cutting
  width is by the constant 100 and cannot raise.
\<close>

definition shown_width :: "int \<Rightarrow> pyfloat \<Rightarrow> pystr" where
  "shown_width overlap diameter =
     (case fdiv (fmul (Fin (of_int overlap)) diameter) (Fin 100) of
        Inr w \<Rightarrow> txt_cutting_width @ format_f 1 w @ txt_mm @ [0x0A]
      | Inl e \<Rightarrow> [])"

definition format_result ::
  "user_data \<Rightarrow> pyfloat \<Rightarrow> pyfloat \<Rightarrow> pyfloat option \<Rightarrow> pyfloat option \<Rightarrow> pyfloat option \<Rightarrow>
   pyfloat option \<Rightarrow> int option \<Rightarrow> pystr" where
  "format_result ud speed feed depth n feed_per_minute cutting_width overlap =
     txt_recommended_for
     @ (case ud_material ud of Some m \<Rightarrow> m | None \<Rightarrow> txt_unknown_material)
     @ cp '' (''
     @ (case ud_operation ud of Some op \<Rightarrow> op | None \<Rightarrow> txt_unknown_operation)
     @ txt_with_tool
     @ (case ud_tool_type ud of Some tt \<Rightarrow> tt | None \<Rightarrow> txt_unknown_tool_type)
     @ (case ud_tool_subtype ud of
          Some st \<Rightarrow> if st \<noteq> [] then cp '' ('' @ st @ cp '')'' else []
        | None \<Rightarrow> [])
     @ cp '':'' @ [0x0A]
     @ txt_speed @ format_f 1 speed @ txt_m_min @ [0x0A]
     @ txt_feed @ format_f 2 feed @ txt_mm_rev @ [0x0A]
     @ (if truthy_float feed_per_minute
        then (case feed_per_minute of
                Some f \<Rightarrow> txt_feed_per_minute @ format_f 1 f @ txt_mm_min @ [0x0A]
              | None \<Rightarrow> [])
        else [])
     @ (if ud_operation ud \<noteq> Some frezerovanie \<and> truthy_float depth
        then (case depth of
                Some dp \<Rightarrow> txt_depth @ format_f 1 dp @ txt_mm @ [0x0A]
              | None \<Rightarrow> [])
        else [])
     @ (if truthy_int overlap \<and> truthy_float (ud_diameter ud)
        then (case (overlap, ud_diameter ud) of
                (Some ov, Some dm) \<Rightarrow> shown_width ov dm
              | _ \<Rightarrow> [])
        else [])
     @ (if truthy_float n
        then (case n of
                Some nv \<Rightarrow> txt_spindle @ format_f 0 nv @ txt_rev_min @ [0x0A]
              | None \<Rightarrow> [])
        else [])
     @ txt_support"

subsection \<open>The handlers\<close>

text \<open>
  Every handler takes the session data and the text of the incoming message.
  \<open>context.user_data[k]\<close> on an absent key raises \<open>KeyError\<close>.
\<close>

definition start :: "user_data \<Rightarrow> result" where
  "start ud =
     (Inr (Some MATERIAL), empty_user_data,
      [([Lit msg_start], Some (keyboard [[Lit stal], [Lit tsvetnoy_metall]]))])"

definition material :: "user_data \<Rightarrow> pystr \<Rightarrow> result" where
  "material ud txt =
     (let m = py_lower txt in
      if m = cp ''/start'' then start ud
      else
        (let ud1 = ud\<lparr>ud_material := Some m\<rparr> in
         (case map_of cutting_parameters m of
            Some ops \<Rightarrow>
              (Inr (Some OPERATION), ud1,
               [([Lit (msg_material_ok @ m @ cp '':'')],
                 Some (keyboard (map (\<lambda>k. [Lit k]) (map fst ops))))])
          | None \<Rightarrow> (Inr (Some END), ud1, [([Lit msg_material_not_found], None)]))))"

definition operation :: "user_data \<Rightarrow> pystr \<Rightarrow> result" where
  "operation ud txt =
     (let op = py_lower txt in
      if op = cp ''/start'' then start ud
      else
        (let ud1 = ud\<lparr>ud_operation := Some op\<rparr> in
         (case ud_material ud1 of None \<Rightarrow> (Inl KeyError, ud1, []) | Some m \<Rightarrow>
          (case getitem cutting_parameters m of Inl e \<Rightarrow> (Inl e, ud1, []) | Inr ops \<Rightarrow>
           (case map_of ops op of
              Some tools \<Rightarrow>
                (Inr (Some TOOL_TYPE), ud1,
                 [([Lit (msg_operation_ok @ op @ cp '':'')],
                   Some (keyboard (map (\<lambda>k. [Lit k]) (map fst tools))))])
            | None \<Rightarrow> (Inr (Some END), ud1, [([Lit msg_operation_not_found], None)]))))))"

text \<open>
  The keys of what sits under \<open>radius_plastiny\<close>, each passed through \<open>str\<close> for the
  keyboard: the floats of the float-keyed dictionary (the keys of an entry are strings).
\<close>

fun node_keys :: "node \<Rightarrow> pytext list" where
  "node_keys (Floats d) = map (\<lambda>kv. [Repr (Fin (fst kv))]) d"
| "node_keys (Entry e) =
     [[Lit key_skorost], [Lit key_podacha]] @
     (case glubina e of Some g \<Rightarrow> [[Lit key_glubina]] | None \<Rightarrow> [])"

definition tool_type :: "user_data \<Rightarrow> pystr \<Rightarrow> result" where
  "tool_type ud txt =
     (let tt = py_lower txt in
      if tt = cp ''/start'' then start ud
      else
        (let ud1 = ud\<lparr>ud_tool_type := Some tt\<rparr> in
         (case ud_material ud1 of None \<Rightarrow> (Inl KeyError, ud1, []) | Some m \<Rightarrow>
          (case ud_operation ud1 of None \<Rightarrow> (Inl KeyError, ud1, []) | Some op \<Rightarrow>
           (case getitem cutting_parameters m of Inl e \<Rightarrow> (Inl e, ud1, []) | Inr ops \<Rightarrow>
            (case getitem ops op of Inl e \<Rightarrow> (Inl e, ud1, []) | Inr tools \<Rightarrow>
             (case map_of tools tt of
                None \<Rightarrow> (Inr (Some END), ud1, [([Lit msg_tool_type_not_found], None)])
              | Some subs \<Rightarrow>
                  if op = frezerovanie then
                    (if tt = monolitnaya \<or> tt = s_plastinami then
                       (Inr (Some TOOL_SUBTYPE), ud1,
                        [([Lit msg_choose_mill],
                          Some (keyboard (map (\<lambda>k. [Lit k]) (map fst subs))))])
                     else (Inr None, ud1, []))
                  else if op = tochenie then
                    (if tt = kanavochny then
                       (Inr (Some GROOVE_WIDTH), ud1, [([Lit msg_enter_insert_width], None)])
                     else if tt = prokhodnoy then
                       (case getitem subs radius_plastiny of
                          Inl e \<Rightarrow> (Inl e, ud1, [])
                        | Inr nd \<Rightarrow>
                            (Inr (Some RADIUS), ud1,
                             [([Lit msg_choose_insert_radius], Some (keyboard (node_keys nd)))]))
                     else (Inr None, ud1, []))
                  else if op = sverlenie then
                    (if tt = monolitnoe then
                       (Inr (Some TOOL_SUBTYPE), ud1,
                        [([Lit msg_choose_drill],
                          Some (keyboard (map (\<lambda>k. [Lit k]) (map fst subs))))])
                     else (Inr (Some DIAMETER), ud1, [([Lit msg_enter_drill_diameter], None)]))
                  else (Inr None, ud1, []))))))))"

definition tool_subtype :: "user_data \<Rightarrow> pystr \<Rightarrow> result" where
  "tool_subtype ud txt =
     (let st = py_lower txt in
      if st = cp ''/start'' then start ud
      else
        (let ud1 = ud\<lparr>ud_tool_subtype := Some st\<rparr> in
         (case ud_operation ud1 of None \<Rightarrow> (Inl KeyError, ud1, []) | Some op \<Rightarrow>
            if op = frezerovanie then
              (Inr (Some DIAMETER), ud1, [([Lit msg_enter_mill_diameter], None)])
            else if op = sverlenie then
              (Inr (Some DIAMETER), ud1, [([Lit msg_enter_drill_diameter], None)])
            else (Inr (Some END), ud1, [([Lit msg_subtype_error], None)]))))"

text \<open>
  The numeric handlers wrap their whole body in \<open>try\<close> with one clause
  \<open>except ValueError\<close>. The body is the function named \<open>_try\<close>; the handler itself turns a
  \<open>ValueError\<close> from anywhere in the body into the reply that asks again, keeping the
  state, and lets every other exception pass.
\<close>

definition diameter_try :: "user_data \<Rightarrow> pystr \<Rightarrow> result" where
  "diameter_try ud txt =
     (case py_float (py_replace 0x2C 0x2E txt) of Inl e \<Rightarrow> (Inl e, ud, []) | Inr d \<Rightarrow>
      (let ud1 = ud\<lparr>ud_diameter := Some d\<rparr> in
       (case ud_operation ud1 of None \<Rightarrow> (Inl KeyError, ud1, []) | Some op \<Rightarrow>
          if op = frezerovanie then
            (Inr (Some NUMBER_OF_TEETH), ud1, [([Lit msg_enter_teeth], None)])
          else if op = sverlenie then
            (case get_cutting_parameters ud1 of Inl e \<Rightarrow> (Inl e, ud1, []) | Inr params \<Rightarrow>
               if \<not> truthy_node params then
                 (Inr (Some END), ud1, [([Lit msg_no_params], None)])
               else
                 (case params of
                    Some (Entry e) \<Rightarrow>
                      (let recommended_speed = (fst (skorost e) + snd (skorost e)) / 2;
                           recommended_feed = (fst (podacha e) + snd (podacha e)) / 2
                       in (case fdiv (Fin (1000 * recommended_speed)) (fmul (Fin pi) d) of
                             Inl err \<Rightarrow> (Inl err, ud1, [])
                           | Inr n \<Rightarrow>
                               (let feed_per_minute = fmul (Fin recommended_feed) n
                                in (Inr (Some END), ud1,
                                    [([Lit (format_result ud1 (Fin recommended_speed)
                                              (Fin recommended_feed) None (Some n)
                                              (Some feed_per_minute) None None)],
                                      Some start_keyboard)]))))
                  | _ \<Rightarrow> (Inl KeyError, ud1, [])))
          else (Inr (Some DEPTH_OF_CUT), ud1, [([Lit msg_enter_depth], None)]))))"

definition diameter :: "user_data \<Rightarrow> pystr \<Rightarrow> result" where
  "diameter ud txt =
     (case diameter_try ud txt of
        (Inl ValueError, ud1, rs) \<Rightarrow>
          (Inr (Some DIAMETER), ud1, rs @ [([Lit msg_diameter_not_numeric], None)])
      | r \<Rightarrow> r)"

definition number_of_teeth :: "user_data \<Rightarrow> pystr \<Rightarrow> result" where
  "number_of_teeth ud txt =
     (case py_int txt of
        Inr z \<Rightarrow>
          (Inr (Some DEPTH_OF_CUT), ud\<lparr>ud_number_of_teeth := Some z\<rparr>,
           [([Lit msg_enter_depth], None)])
      | Inl ValueError \<Rightarrow> (Inr (Some NUMBER_OF_TEETH), ud, [([Lit msg_teeth_not_integer], None)])
      | Inl e \<Rightarrow> (Inl e, ud, []))"

definition depth_of_cut_try :: "user_data \<Rightarrow> pystr \<Rightarrow> result" where
  "depth_of_cut_try ud txt =
     (case py_float (py_replace 0x2C 0x2E txt) of Inl e \<Rightarrow> (Inl e, ud, []) | Inr a \<Rightarrow>
      (let ud1 = ud\<lparr>ud_depth_of_cut := Some a\<rparr> in
       (case get_cutting_parameters ud1 of Inl e \<Rightarrow> (Inl e, ud1, []) | Inr params \<Rightarrow>
          if \<not> truthy_node params then
            (Inr (Some END), ud1, [([Lit msg_no_params], None)])
          else
            (case (if truthy_float (ud_diameter ud1) \<and> truthy_str (ud_tool_subtype ud1)
                   then (case (ud_diameter ud1, ud_tool_subtype ud1) of
                           (Some d, Some st) \<Rightarrow> calculate_cutting_width d a st
                         | _ \<Rightarrow> Inr None)
                   else Inr None) of
               Inl e \<Rightarrow> (Inl e, ud1, [])
             | Inr cutting_width \<Rightarrow>
                 (let overlap =
                        (if truthy_float (ud_diameter ud1)
                         then (case ud_diameter ud1 of
                                 Some d \<Rightarrow> calculate_overlap d a
                               | None \<Rightarrow> None)
                         else None)
                  in (case params of
                        Some (Entry e) \<Rightarrow>
                          (let recommended_speed = (fst (skorost e) + snd (skorost e)) / 2;
                               recommended_feed = (fst (podacha e) + snd (podacha e)) / 2;
                               recommended_depth =
                                 (case glubina e of
                                    Some g \<Rightarrow> Some (Fin ((fst g + snd g) / 2))
                                  | None \<Rightarrow> None)
                           in (case (if truthy_float (ud_diameter ud1)
                                     then (case ud_diameter ud1 of
                                             Some d \<Rightarrow>
                                               map_sum id Some
                                                 (fdiv (Fin (1000 * recommended_speed))
                                                    (fmul (Fin pi) d))
                                           | None \<Rightarrow> Inr None)
                                     else Inr None) of
                                 Inl err \<Rightarrow> (Inl err, ud1, [])
                               | Inr n \<Rightarrow>
                                   (let feed_per_minute =
                                          (if truthy_float n
                                           then map_option (fmul (Fin recommended_feed)) n
                                           else None)
                                    in (Inr (Some END), ud1,
                                        [([Lit (format_result ud1 (Fin recommended_speed)
                                                  (Fin recommended_feed) recommended_depth n
                                                  feed_per_minute cutting_width overlap)],
                                          Some start_keyboard)]))))
                      | _ \<Rightarrow> (Inl KeyError, ud1, [])))))))"

definition depth_of_cut :: "user_data \<Rightarrow> pystr \<Rightarrow> result" where
  "depth_of_cut ud txt =
     (case depth_of_cut_try ud txt of
        (Inl ValueError, ud1, rs) \<Rightarrow>
          (Inr (Some DEPTH_OF_CUT), ud1, rs @ [([Lit msg_depth_not_numeric], None)])
      | r \<Rightarrow> r)"

definition radius_try :: "user_data \<Rightarrow> pystr \<Rightarrow> result" where
  "radius_try ud txt =
     (case py_float (py_replace 0x2C 0x2E txt) of Inl e \<Rightarrow> (Inl e, ud, []) | Inr r \<Rightarrow>
      (let ud1 = ud\<lparr>ud_radius := Some r\<rparr> in
       (case get_cutting_parameters ud1 of Inl e \<Rightarrow> (Inl e, ud1, []) | Inr params \<Rightarrow>
          if \<not> truthy_node params then
            (Inr (Some END), ud1, [([Lit msg_no_params], None)])
          else
            (case params of
               Some (Entry e) \<Rightarrow>
                 (let recommended_speed = (fst (skorost e) + snd (skorost e)) / 2;
                      recommended_feed = (fst (podacha e) + snd (podacha e)) / 2;
                      recommended_depth =
                        (case glubina e of
                           Some g \<Rightarrow> Some (Fin ((fst g + snd g) / 2))
                         | None \<Rightarrow> None)
                  in (case ud_material ud1 of None \<Rightarrow> (Inl KeyError, ud1, []) | Some m \<Rightarrow>
                      (case ud_operation ud1 of None \<Rightarrow> (Inl KeyError, ud1, []) | Some op \<Rightarrow>
                         (Inr (Some END), ud1,
                          [([Lit (txt_recommended_for @ m @ cp '' ('' @ op @ txt_with_insert_radius),
                             Repr r, Lit txt_mm_colon], None),
                           ([Lit (txt_speed @ format_f 1 (Fin recommended_speed) @ txt_m_min)], None),
                           ([Lit (txt_feed @ format_f 2 (Fin recommended_feed) @ txt_mm_rev)], None)]
                          @ (if truthy_float recommended_depth
                             then (case recommended_depth of
                                     Some dp \<Rightarrow> [([Lit (txt_depth @ format_f 1 dp @ txt_mm)], None)]
                                   | None \<Rightarrow> [])
                             else [])
                          @ [([Lit msg_new_calculation], Some start_keyboard)]))))
             | _ \<Rightarrow> (Inl KeyError, ud1, [])))))"

definition radius :: "user_data \<Rightarrow> pystr \<Rightarrow> result" where
  "radius ud txt =
     (case radius_try ud txt of
        (Inl ValueError, ud1, rs) \<Rightarrow>
          (Inr (Some RADIUS), ud1, rs @ [([Lit msg_radius_not_numeric], None)])
      | r \<Rightarrow> r)"

definition groove_width_try :: "user_data \<Rightarrow> pystr \<Rightarrow> result" where
  "groove_width_try ud txt =
     (case py_float (py_replace 0x2C 0x2E txt) of Inl e \<Rightarrow> (Inl e, ud, []) | Inr w \<Rightarrow>
      (let ud1 = ud\<lparr>ud_groove_width := Some w\<rparr> in
       (case get_cutting_parameters ud1 of Inl e \<Rightarrow> (Inl e, ud1, []) | Inr params \<Rightarrow>
          if \<not> truthy_node params then
            (Inr (Some END), ud1, [([Lit msg_no_params], None)])
          else
            (case params of
               Some (Entry e) \<Rightarrow>
                 (let recommended_speed = (fst (skorost e) + snd (skorost e)) / 2;
                      recommended_feed = (fst (podacha e) + snd (podacha e)) / 2
                  in (case ud_material ud1 of None \<Rightarrow> (Inl KeyError, ud1, []) | Some m \<Rightarrow>
                      (case ud_operation ud1 of None \<Rightarrow> (Inl KeyError, ud1, []) | Some op \<Rightarrow>
                         (Inr (Some END), ud1,
                          [([Lit (txt_recommended_for @ m @ cp '' ('' @ op @ txt_with_groove_width),
                             Repr w, Lit txt_mm_colon], None),
                           ([Lit (txt_speed @ format_f 1 (Fin recommended_speed) @ txt_m_min)], None),
                           ([Lit (txt_feed @ format_f 2 (Fin recommended_feed) @ txt_mm_rev)], None),
                           ([Lit msg_new_calculation], Some start_keyboard)]))))
             | _ \<Rightarrow> (Inl KeyError, ud1, [])))))"

definition groove_width :: "user_data \<Rightarrow> pystr \<Rightarrow> result" where
  "groove_width ud txt =
     (case groove_width_try ud txt of
        (Inl ValueError, ud1, rs) \<Rightarrow>
          (Inr (Some GROOVE_WIDTH), ud1, rs @ [([Lit msg_groove_not_numeric], None)])
      | r \<Rightarrow> r)"

definition cancel :: "user_data \<Rightarrow> result" where
  "cancel ud = (Inr (Some END), ud, [([Lit msg_cancelled], Some start_keyboard)])"

subsection \<open>The conversation handler\<close>

text \<open>
  \<open>main\<close> registers one \<open>ConversationHandler\<close>: the command \<open>/start\<close> as entry point, one
  message handler per state under the filter \<open>Filters.text & ~Filters.command\<close>, and the
  commands \<open>/cancel\<close> and \<open>/start\<close> as fallbacks, in this order. An update is a message
  that starts with a bot command (given by the command's name in lower case, as the
  library compares it) or a text message that does not.

  The library runs the first handler that accepts the update: outside a conversation
  (\<open>END\<close>) the entry points, inside one the handlers of the current state and then the
  fallbacks; an update that none accepts is ignored. The value returned becomes the
  state, \<open>None\<close> keeps the state, and an exception leaves the handler for the
  dispatcher, which logs it: the state stays, what the handler had already written to the
  session data and sent stays too.
\<close>

datatype update = Command pystr | Text pystr

fun state_handler :: "state \<Rightarrow> (user_data \<Rightarrow> pystr \<Rightarrow> result) option" where
  "state_handler MATERIAL = Some material"
| "state_handler OPERATION = Some operation"
| "state_handler TOOL_TYPE = Some tool_type"
| "state_handler TOOL_SUBTYPE = Some tool_subtype"
| "state_handler DIAMETER = Some diameter"
| "state_handler NUMBER_OF_TEETH = Some number_of_teeth"
| "state_handler DEPTH_OF_CUT = Some depth_of_cut"
| "state_handler RADIUS = Some radius"
| "state_handler GROOVE_WIDTH = Some groove_width"
| "state_handler END = None"

fun find_handler :: "state \<Rightarrow> update \<Rightarrow> (user_data \<Rightarrow> result) option" where
  "find_handler s (Text t) = map_option (\<lambda>h ud. h ud t) (state_handler s)"
| "find_handler s (Command c) =
     (if s = END then (if c = cp ''start'' then Some start else None)
      else if c = cp ''cancel'' then Some cancel
      else if c = cp ''start'' then Some start
      else None)"

definition handle_update :: "state \<Rightarrow> user_data \<Rightarrow> update \<Rightarrow> state \<times> user_data \<times> reply list" where
  "handle_update s ud u =
     (case find_handler s u of
        None \<Rightarrow> (s, ud, [])
      | Some h \<Rightarrow>
          (case h ud of
             (Inr (Some s'), ud1, rs) \<Rightarrow> (s', ud1, rs)
           | (_, ud1, rs) \<Rightarrow> (s, ud1, rs)))"

text \<open>A whole conversation: the updates in order, the replies collected.\<close>

fun run :: "state \<times> user_data \<times> reply list \<Rightarrow> update list \<Rightarrow> state \<times> user_data \<times> reply list" where
  "run c [] = c"
| "run (s, ud, rs) (u # us) =
     (case handle_update s ud u of (s', ud1, rs1) \<Rightarrow> run (s', ud1, rs @ rs1) us)"

section \<open>Verification\<close>

subsection \<open>Auxiliary facts\<close>

lemmas key_defs =
  stal_def tsvetnoy_metall_def frezerovanie_def tochenie_def sverlenie_def monolitnaya_def
  s_plastinami_def tsilindricheskaya_def sfericheskaya_def tortsevaya_def pazovaya_def
  prokhodnoy_def kanavochny_def radius_plastiny_def shirina_plastiny_def monolitnoe_def
  so_smennymi_plastinami_def tverdy_splav_def karbid_def cp_def

lemma sqrt_16: "sqrt 16 = 4"
  by (rule real_sqrt_unique) simp_all

lemma sqrt_9: "sqrt 9 = 3"
  by (rule real_sqrt_unique) simp_all

lemma try_raises_only_KeyError:
  "get_cutting_parameters_try m op tt st r gw = Inl e \<Longrightarrow> e = KeyError"
  by (auto simp: get_cutting_parameters_try_def getitem_def split: if_splits option.splits sum.splits)

lemmas parse_defs =
  py_float_def py_replace_def cp_def strip_def is_space_def float_number_def fraction_def
  is_digit_def digits_value_def ascii_lower_def exponent_def

lemma py_float_raises_only_ValueError: "py_float s = Inl e \<Longrightarrow> e = ValueError"
  by (auto simp: py_float_def split: prod.splits if_splits option.splits)

lemma get_cutting_parameters_returns: "\<exists>r. get_cutting_parameters ud = Inr r"
proof (cases "get_cutting_parameters ud")
  case (Inl e)
  then show ?thesis
    by (auto simp: get_cutting_parameters_def
          split: if_splits option.splits sum.splits error.splits
          dest: try_raises_only_KeyError)
next
  case (Inr r)
  then show ?thesis by blast
qed

lemma node_get_entry: "node_get nd r = Some x \<Longrightarrow> \<exists>e. x = Entry e"
  by (cases nd; cases r) auto

lemma try_entry:
  "get_cutting_parameters_try m op tt st r gw = Inr (Some nd) \<Longrightarrow> \<exists>e. nd = Entry e"
  by (auto simp: get_cutting_parameters_try_def getitem_def cutting_parameters_def key_defs
        split: if_splits option.splits dest: node_get_entry)

lemma get_cutting_parameters_entry:
  "get_cutting_parameters ud = Inr (Some nd) \<Longrightarrow> \<exists>e. nd = Entry e"
  by (auto simp: get_cutting_parameters_def split: if_splits option.splits sum.splits error.splits
        dest: try_entry)

lemma get_cutting_parameters_fields:
  "get_cutting_parameters ud = Inr (Some nd) \<Longrightarrow>
     \<exists>m op. ud_material ud = Some m \<and> ud_operation ud = Some op"
  by (auto simp: get_cutting_parameters_def split: if_splits option.splits)

lemma radius_returns: "\<exists>s. fst (radius ud txt) = Inr s"
proof (cases "py_float (py_replace 0x2C 0x2E txt)")
  case (Inl e)
  then have "py_float (py_replace 0x2C 0x2E txt) = Inl ValueError"
    using py_float_raises_only_ValueError by blast
  then show ?thesis by (simp add: radius_def radius_try_def)
next
  case (Inr f)
  obtain r where r: "get_cutting_parameters (ud\<lparr>ud_radius := Some f\<rparr>) = Inr r"
    using get_cutting_parameters_returns by blast
  show ?thesis
  proof (cases r)
    case None
    with Inr r show ?thesis by (simp add: radius_def radius_try_def)
  next
    case (Some nd)
    with r obtain e where e: "nd = Entry e" using get_cutting_parameters_entry by blast
    from Some r obtain m op where
      "ud_material (ud\<lparr>ud_radius := Some f\<rparr>) = Some m"
      "ud_operation (ud\<lparr>ud_radius := Some f\<rparr>) = Some op"
      using get_cutting_parameters_fields by blast
    with Inr r Some e show ?thesis by (simp add: radius_def radius_try_def Let_def)
  qed
qed

lemma groove_width_returns: "\<exists>s. fst (groove_width ud txt) = Inr s"
proof (cases "py_float (py_replace 0x2C 0x2E txt)")
  case (Inl e)
  then have "py_float (py_replace 0x2C 0x2E txt) = Inl ValueError"
    using py_float_raises_only_ValueError by blast
  then show ?thesis by (simp add: groove_width_def groove_width_try_def)
next
  case (Inr f)
  obtain r where r: "get_cutting_parameters (ud\<lparr>ud_groove_width := Some f\<rparr>) = Inr r"
    using get_cutting_parameters_returns by blast
  show ?thesis
  proof (cases r)
    case None
    with Inr r show ?thesis by (simp add: groove_width_def groove_width_try_def)
  next
    case (Some nd)
    with r obtain e where e: "nd = Entry e" using get_cutting_parameters_entry by blast
    from Some r obtain m op where
      "ud_material (ud\<lparr>ud_groove_width := Some f\<rparr>) = Some m"
      "ud_operation (ud\<lparr>ud_groove_width := Some f\<rparr>) = Some op"
      using get_cutting_parameters_fields by blast
    with Inr r Some e show ?thesis by (simp add: groove_width_def groove_width_try_def Let_def)
  qed
qed

lemma radius_lookup:
  assumes "ud_material ud = Some m" "m = stal \<or> m = tsvetnoy_metall"
    "ud_operation ud = Some tochenie" "ud_tool_type ud = Some prokhodnoy"
  shows "f \<notin> {Fin 0.4, Fin 0.8, Fin 1.2} \<Longrightarrow>
           get_cutting_parameters (ud\<lparr>ud_radius := Some f\<rparr>) = Inr None"
    and "f \<in> {Fin 0.4, Fin 0.8, Fin 1.2} \<Longrightarrow>
           \<exists>d v e. catalog_path m tochenie prokhodnoy radius_plastiny = Some (Floats d)
             \<and> f = Fin v \<and> map_of d v = Some e
             \<and> get_cutting_parameters (ud\<lparr>ud_radius := Some f\<rparr>) = Inr (Some (Entry e))"
  using assms
  by (cases f;
      auto simp: get_cutting_parameters_def get_cutting_parameters_try_def getitem_def
        catalog_path_def cutting_parameters_def key_defs)+

lemma groove_lookup:
  assumes "ud_material ud = Some m" "m = stal \<or> m = tsvetnoy_metall"
    "ud_operation ud = Some tochenie" "ud_tool_type ud = Some kanavochny"
  shows "f \<notin> {Fin 2, Fin 3, Fin 4} \<Longrightarrow>
           get_cutting_parameters (ud\<lparr>ud_groove_width := Some f\<rparr>) = Inr None"
    and "f \<in> {Fin 2, Fin 3, Fin 4} \<Longrightarrow>
           \<exists>d v e. catalog_path m tochenie kanavochny shirina_plastiny = Some (Floats d)
             \<and> f = Fin v \<and> map_of d v = Some e
             \<and> get_cutting_parameters (ud\<lparr>ud_groove_width := Some f\<rparr>) = Inr (Some (Entry e))"
  using assms
  by (cases f;
      auto simp: get_cutting_parameters_def get_cutting_parameters_try_def getitem_def
        catalog_path_def cutting_parameters_def key_defs)+

lemma sin_poly9: "(\<Sum>m<9. sin_coeff m * x ^ m) = x - x^3/6 + x^5/120 - x^7/5040" for x :: real
proof -
  have s: "{..<9::nat} = {0,1,2,3,4,5,6,7,8}" by auto
  show ?thesis unfolding s by (simp add: sin_coeff_def fact_numeral)
qed

lemma sin_poly7: "(\<Sum>m<7. sin_coeff m * x ^ m) = x - x^3/6 + x^5/120" for x :: real
proof -
  have s: "{..<7::nat} = {0,1,2,3,4,5,6}" by auto
  show ?thesis unfolding s by (simp add: sin_coeff_def fact_numeral)
qed

lemma pi_lower: "3.141558 < pi"
proof -
  let ?x = "523593 / 1000000 :: real"
  have b: "\<bar>sin ?x - (\<Sum>m<9. sin_coeff m * ?x ^ m)\<bar> \<le> inverse (fact 9) * \<bar>?x\<bar> ^ 9"
    by (rule Maclaurin_sin_bound)
  have n: "(?x - ?x^3/6 + ?x^5/120 - ?x^7/5040) + inverse (fact 9) * \<bar>?x\<bar> ^ 9 < 1/2"
    by (simp add: fact_numeral power_divide)
  have "sin ?x < 1/2"
    using b n unfolding sin_poly9 by linarith
  then have "sin ?x < sin (pi/6)" by (simp add: sin_30)
  moreover have "?x \<le> pi/2" using pi_ge_two by linarith
  moreover have "- (pi/2) \<le> ?x" using pi_ge_zero by linarith
  ultimately have "?x < pi/6"
    using sin_mono_less_eq[of ?x "pi/6"] pi_ge_two by auto
  then show ?thesis by simp
qed

lemma pi_upper: "pi < 3.14166"
proof -
  let ?x = "52361 / 100000 :: real"
  have b: "\<bar>sin ?x - (\<Sum>m<7. sin_coeff m * ?x ^ m)\<bar> \<le> inverse (fact 7) * \<bar>?x\<bar> ^ 7"
    by (rule Maclaurin_sin_bound)
  have n: "1/2 < (?x - ?x^3/6 + ?x^5/120) - inverse (fact 7) * \<bar>?x\<bar> ^ 7"
    by (simp add: fact_numeral power_divide)
  have "1/2 < sin ?x"
    using b n unfolding sin_poly7 by linarith
  then have "sin (pi/6) < sin ?x" by (simp add: sin_30)
  moreover have "?x \<le> pi/2" using pi_ge_two by linarith
  moreover have "- (pi/2) \<le> ?x" using pi_ge_zero by linarith
  ultimately have "pi/6 < ?x"
    using sin_mono_less_eq[of "pi/6" ?x] pi_ge_two by auto
  then show ?thesis by simp
qed

lemma round_spindle: "round_half_even (8500 / pi) = 2706"
proof -
  have lo: "2705 + 1/2 < 8500 / pi"
    using pi_upper pi_gt_zero by (simp add: field_simps)
  have hi: "8500 / pi < 2706"
    using pi_lower pi_gt_zero by (simp add: field_simps)
  have f: "\<lfloor>8500 / pi\<rfloor> = 2705"
    using lo hi by (intro floor_unique) simp_all
  show ?thesis
    using lo unfolding round_half_even_def f by (simp add: Let_def)
qed

lemma round_feed_rate: "round_half_even (12750 / pi) = 4058"
proof -
  have lo: "4058 \<le> 12750 / pi"
    using pi_upper pi_gt_zero by (simp add: field_simps)
  have hi: "12750 / pi < 4058 + 1/2"
    using pi_lower pi_gt_zero by (simp add: field_simps)
  have f: "\<lfloor>12750 / pi\<rfloor> = 4058"
    using lo hi by (intro floor_unique) simp_all
  show ?thesis
    using hi unfolding round_half_even_def f by (simp add: Let_def)
qed

lemma format_spindle: "format_f 0 (Fin (8500 / pi)) = cp ''2706''"
  by (simp add: format_f_def round_spindle Let_def cp_def)

lemma format_feed_rate: "format_f 1 (Fin (1275 / pi)) = cp ''405.8''"
proof -
  have "\<bar>1275 / pi\<bar> * 10 ^ 1 = 12750 / pi" by simp
  then show ?thesis
    unfolding format_f_def by (simp add: round_feed_rate Let_def cp_def)
qed

lemma format_speed: "format_f 1 (Fin 85) = cp ''85.0''"
  by (simp add: format_f_def round_half_even_def cp_def)

lemma format_feed: "format_f 2 (Fin (3/20)) = cp ''0.15''"
  by (simp add: format_f_def round_half_even_def cp_def)

lemma format_Suc_0:
  "format_f (Suc 0) (Fin 85) = cp ''85.0''"
  "format_f (Suc 0) (Fin (1275 / pi)) = cp ''405.8''"
  using format_speed format_feed_rate by simp_all

lemma drilling_scenario_reply:
  "diameter (empty_user_data\<lparr>ud_material := Some stal, ud_operation := Some sverlenie,
          ud_tool_type := Some monolitnoe, ud_tool_subtype := Some tverdy_splav\<rparr>) (cp ''10'')
   = (Inr (Some END),
      empty_user_data\<lparr>ud_material := Some stal, ud_operation := Some sverlenie,
          ud_tool_type := Some monolitnoe, ud_tool_subtype := Some tverdy_splav,
          ud_diameter := Some (Fin 10)\<rparr>,
      [([Lit (txt_recommended_for @ stal @ cp '' ('' @ sverlenie @ txt_with_tool @ monolitnoe
              @ cp '' ('' @ tverdy_splav @ cp '')'' @ cp '':'' @ [0x0A]
              @ txt_speed @ cp ''85.0'' @ txt_m_min @ [0x0A]
              @ txt_feed @ cp ''0.15'' @ txt_mm_rev @ [0x0A]
              @ txt_feed_per_minute @ cp ''405.8'' @ txt_mm_min @ [0x0A]
              @ txt_spindle @ cp ''2706'' @ txt_rev_min @ [0x0A]
              @ txt_support)],
        Some start_keyboard)])"
proof -
  have p: "py_float (py_replace 0x2C 0x2E (cp ''10'')) = Inr (Fin 10)"
    by (simp add: parse_defs)
  have g: "get_cutting_parameters
       (empty_user_data\<lparr>ud_material := Some stal, ud_operation := Some sverlenie,
          ud_tool_type := Some monolitnoe, ud_tool_subtype := Some tverdy_splav,
          ud_diameter := Some (Fin 10)\<rparr>)
       = Inr (Some (Entry \<lparr>skorost = (70, 100), podacha = (0.1, 0.2), glubina = Some (1, 12)\<rparr>))"
    by (simp add: get_cutting_parameters_def get_cutting_parameters_try_def getitem_def
          cutting_parameters_def key_defs empty_user_data_def)
  have ne: "sverlenie \<noteq> frezerovanie" "tverdy_splav \<noteq> []"
    by (simp_all add: key_defs)
  show ?thesis
    using p g ne
    by (simp add: diameter_def diameter_try_def Let_def format_result_def
          format_Suc_0 format_feed format_spindle)
qed

lemma fmul_pi_nonzero: "d \<noteq> Fin 0 \<Longrightarrow> fmul (Fin pi) d \<noteq> Fin 0"
  by (cases d) auto

lemma fdiv_returns: "b \<noteq> Fin 0 \<Longrightarrow> \<exists>n. fdiv a b = Inr n"
  by (cases a; cases b) auto

lemma drilling_diameter_ends:
  assumes "ud_operation ud = Some sverlenie"
    and "py_float (py_replace 0x2C 0x2E txt) = Inr d" and "d \<noteq> Fin 0"
  shows "fst (diameter ud txt) = Inr (Some END)"
proof -
  have ne: "sverlenie \<noteq> frezerovanie" by (simp add: key_defs)
  obtain r where r: "get_cutting_parameters (ud\<lparr>ud_diameter := Some d\<rparr>) = Inr r"
    using get_cutting_parameters_returns by blast
  show ?thesis
  proof (cases r)
    case None
    with assms r ne show ?thesis by (simp add: diameter_def diameter_try_def)
  next
    case (Some nd)
    with r obtain e where e: "nd = Entry e" using get_cutting_parameters_entry by blast
    obtain n where
      n: "fdiv (Fin (1000 * ((fst (skorost e) + snd (skorost e)) / 2))) (fmul (Fin pi) d) = Inr n"
      using fdiv_returns [OF fmul_pi_nonzero [OF assms(3)]] by blast
    from assms r ne Some e n show ?thesis
      by (simp add: diameter_def diameter_try_def Let_def)
  qed
qed

lemma drilling_scenario_states:
  "run (END, ud, []) [Command (cp ''start''), Text stal, Text sverlenie, Text monolitnoe,
       Text tverdy_splav]
   = (DIAMETER,
      empty_user_data\<lparr>ud_material := Some stal, ud_operation := Some sverlenie,
          ud_tool_type := Some monolitnoe, ud_tool_subtype := Some tverdy_splav\<rparr>,
      snd (snd (run (END, ud, []) [Command (cp ''start''), Text stal, Text sverlenie,
        Text monolitnoe, Text tverdy_splav])))"
  by (simp add: handle_update_def start_def material_def operation_def tool_type_def
        tool_subtype_def py_lower_def lower_cp_def getitem_def cutting_parameters_def key_defs
        empty_user_data_def)

text \<open>Facts about the rounding to double precision.\<close>

lemma round_half_even_mono: "x \<le> y \<Longrightarrow> round_half_even x \<le> round_half_even y"
proof -
  assume xy: "x \<le> y"
  then have f: "\<lfloor>x\<rfloor> \<le> \<lfloor>y\<rfloor>" by (rule floor_mono)
  show ?thesis
  proof (cases "\<lfloor>x\<rfloor> = \<lfloor>y\<rfloor>")
    case True
    with xy show ?thesis by (auto simp: round_half_even_def Let_def)
  next
    case False
    with f have "\<lfloor>x\<rfloor> + 1 \<le> \<lfloor>y\<rfloor>" by simp
    moreover have "round_half_even x \<le> \<lfloor>x\<rfloor> + 1" by (simp add: round_half_even_def Let_def)
    moreover have "\<lfloor>y\<rfloor> \<le> round_half_even y" by (simp add: round_half_even_def Let_def)
    ultimately show ?thesis by linarith
  qed
qed

lemma round_half_even_of_int [simp]: "round_half_even (of_int n) = n"
  by (simp add: round_half_even_def)

lemma round_half_even_error: "\<bar>of_int (round_half_even z) - z\<bar> \<le> 1 / 2"
proof -
  have "of_int \<lfloor>z\<rfloor> \<le> z" "z < of_int \<lfloor>z\<rfloor> + 1" by linarith+
  then show ?thesis by (auto simp: round_half_even_def Let_def abs_le_iff)
qed

lemma round_to_double_eval:
  assumes "2 powr of_int k \<le> \<bar>x\<bar>" and "\<bar>x\<bar> < 2 powr of_int (k + 1)"
    and "e = max (k - 52) (- 1074)"
  shows "round_to_double x = of_int (round_half_even (x / 2 powr of_int e)) * 2 powr of_int e"
proof -
  have "0 < \<bar>x\<bar>" using assms(1) by (smt (verit) powr_gt_zero)
  then have "\<lfloor>log 2 \<bar>x\<bar>\<rfloor> = k"
    using assms(1,2) by (subst floor_log_eq_powr_iff) (simp_all add: )
  then show ?thesis by (simp add: round_to_double_def ulp_exponent_def assms(3))
qed

lemma double_0_3: "round_to_double 0.3 = 5404319552844595 / 2 ^ 54"
  by (subst round_to_double_eval [where k = "- 2" and e = "- 54"])
     (simp_all add: powr_minus_divide round_half_even_def)

lemma double_0_5: "round_to_double 0.5 = 1 / 2"
  by (subst round_to_double_eval [where k = "- 1" and e = "- 53"])
     (simp_all add: powr_minus_divide round_half_even_def)

lemma double_0_7: "round_to_double 0.7 = 3152519739159347 / 2 ^ 52"
  by (subst round_to_double_eval [where k = "- 1" and e = "- 53"])
     (simp_all add: powr_minus_divide round_half_even_def)

lemma ieee_consts:
  "ieee_round 0.3 = Fin (5404319552844595 / 2 ^ 54)"
  "ieee_round 0.5 = Fin (1 / 2)"
  "ieee_round 0.7 = Fin (3152519739159347 / 2 ^ 52)"
  unfolding ieee_round_def double_0_3 double_0_5 double_0_7 by simp_all

lemma prod_10_03: "round_to_double (5404319552844595 / 2 ^ 54 * 10) = 3"
  by (subst round_to_double_eval [where k = 1 and e = "- 51"])
     (simp_all add: powr_minus_divide round_half_even_def)

lemma prod_10_05: "round_to_double (1 / 2 * 10) = 5"
  by (subst round_to_double_eval [where k = 2 and e = "- 50"])
     (simp_all add: powr_minus_divide round_half_even_def)

lemma prod_10_07: "round_to_double (3152519739159347 / 2 ^ 52 * 10) = 7"
  by (subst round_to_double_eval [where k = 2 and e = "- 50"])
     (simp_all add: powr_minus_divide round_half_even_def)

lemma prod_10_2: "round_to_double (2 * 10) = 20"
  by (subst round_to_double_eval [where k = 4 and e = "- 48"])
     (simp_all add: powr_minus_divide round_half_even_def)

lemma prod_3_03: "round_to_double (5404319552844595 / 2 ^ 54 * 3) = 2026619832316723 / 2 ^ 51"
  by (subst round_to_double_eval [where k = "- 1" and e = "- 53"])
     (simp_all add: powr_minus_divide round_half_even_def)

lemma prod_3_05: "round_to_double (1 / 2 * 3) = 3 / 2"
  by (subst round_to_double_eval [where k = 0 and e = "- 52"])
     (simp_all add: powr_minus_divide round_half_even_def)

lemma thresholds_10:
  "fmul_ieee (ieee_round 0.3) (Fin 10) = Fin 3"
  "fmul_ieee (ieee_round 0.5) (Fin 10) = Fin 5"
  "fmul_ieee (ieee_round 0.7) (Fin 10) = Fin 7"
  "fmul_ieee (Fin 2) (Fin 10) = Fin 20"
  by (simp_all only: ieee_consts fmul_ieee.simps)
     (simp_all only: ieee_round_def prod_10_03 prod_10_05 prod_10_07 prod_10_2, simp_all)

lemma thresholds_3:
  "fmul_ieee (ieee_round 0.3) (Fin 3) = Fin (2026619832316723 / 2 ^ 51)"
  "fmul_ieee (ieee_round 0.5) (Fin 3) = Fin (3 / 2)"
  by (simp_all only: ieee_consts fmul_ieee.simps)
     (simp_all only: ieee_round_def prod_3_03 prod_3_05, simp_all)

lemma overlap_10:
  "calculate_overlap (Fin 10) (Fin 3) = Some 100"
  "calculate_overlap (Fin 10) (Fin 5) = Some 70"
  "calculate_overlap (Fin 10) (Fin 7) = Some 50"
  "calculate_overlap (Fin 10) (Fin 10) = Some 30"
  "calculate_overlap (Fin 10) (Fin 20) = Some 10"
  "calculate_overlap (Fin 10) (Fin 21) = None"
  unfolding calculate_overlap_def thresholds_10 by simp_all

lemma overlap_3: "calculate_overlap (Fin 3) (Fin 0.9) = Some 70"
  unfolding calculate_overlap_def thresholds_3 by simp

lemma powr2_nonneg_int: "0 \<le> n \<Longrightarrow> (2::real) powr of_int n = of_int (2 ^ nat n)"
  by (simp add: powr_real_of_int)

lemma powr2_diff: "(2::real) powr of_int a / 2 powr of_int b = 2 powr of_int (a - b)"
  by (simp add: powr_diff)

lemma floor_log2_bounds:
  assumes "0 < x"
  shows "2 powr of_int \<lfloor>log 2 x\<rfloor> \<le> x" and "x < 2 powr of_int (\<lfloor>log 2 x\<rfloor> + 1)"
  using floor_log_eq_powr_iff [of x 2 "\<lfloor>log 2 x\<rfloor>"] assms by simp_all

lemma round_to_double_nonneg: "0 \<le> x \<Longrightarrow> 0 \<le> round_to_double x"
proof -
  assume "0 \<le> x"
  then have "of_int 0 \<le> x / 2 powr of_int (ulp_exponent x)" by simp
  then have "round_half_even (of_int 0) \<le> round_half_even (x / 2 powr of_int (ulp_exponent x))"
    by (rule round_half_even_mono)
  then have "0 \<le> round_half_even (x / 2 powr of_int (ulp_exponent x))"
    by (simp only: round_half_even_of_int)
  then show ?thesis
    unfolding round_to_double_def by (intro mult_nonneg_nonneg) simp_all
qed

lemma round_to_double_mono:
  assumes "0 < x" and "x \<le> y"
  shows "round_to_double x \<le> round_to_double y"
proof -
  let ?kx = "\<lfloor>log 2 x\<rfloor>" and ?ky = "\<lfloor>log 2 y\<rfloor>"
  let ?ex = "ulp_exponent x" and ?ey = "ulp_exponent y"
  from assms have y: "0 < y" by simp
  have ex: "?ex = max (?kx - 52) (- 1074)" using assms(1) by (simp add: ulp_exponent_def)
  have ey: "?ey = max (?ky - 52) (- 1074)" using y by (simp add: ulp_exponent_def)
  have k: "?kx \<le> ?ky" using assms by (intro floor_mono) simp
  with ex ey have e: "?ex \<le> ?ey" by simp
  show ?thesis
  proof (cases "?ex = ?ey")
    case True
    have "x / 2 powr of_int ?ey \<le> y / 2 powr of_int ?ey"
      using assms(2) by (simp add: divide_right_mono)
    then have "round_half_even (x / 2 powr of_int ?ey) \<le> round_half_even (y / 2 powr of_int ?ey)"
      by (rule round_half_even_mono)
    then show ?thesis
      unfolding round_to_double_def True by (simp add: mult_right_mono)
  next
    case False
    with e have lt: "?ex < ?ey" by simp
    with ex ey have ey': "?ey = ?ky - 52" and kk: "?kx + 1 \<le> ?ky" by auto
    have pos: "0 \<le> ?ky - ?ex" using lt ey' by simp
    \<comment> \<open>the larger argument rounds to at least 2 powr ky\<close>
    have "of_int (2 ^ 52) = (2::real) powr of_int (?ky - ?ey)"
      unfolding ey' by simp
    also have "\<dots> = 2 powr of_int ?ky / 2 powr of_int ?ey" by (simp only: powr2_diff)
    also have "\<dots> \<le> y / 2 powr of_int ?ey"
      using floor_log2_bounds(1) [OF y] by (simp add: divide_right_mono)
    finally have "round_half_even (of_int (2 ^ 52)) \<le> round_half_even (y / 2 powr of_int ?ey)"
      by (rule round_half_even_mono)
    then have "(2::int) ^ 52 \<le> round_half_even (y / 2 powr of_int ?ey)"
      by (simp only: round_half_even_of_int)
    then have "of_int (2 ^ 52) * 2 powr of_int ?ey \<le> round_to_double y"
      unfolding round_to_double_def by (intro mult_right_mono) (simp_all only: of_int_le_iff powr_ge_zero)
    moreover have "of_int (2 ^ 52) * 2 powr of_int ?ey = (2::real) powr of_int ?ky"
    proof -
      have "(2::real) powr of_int ?ky = 2 powr of_int (52 + ?ey)" unfolding ey' by simp
      also have "\<dots> = 2 powr of_int 52 * 2 powr of_int ?ey" by (simp add: powr_add)
      finally show ?thesis by simp
    qed
    ultimately have hi: "2 powr of_int ?ky \<le> round_to_double y" by simp
    \<comment> \<open>the smaller argument rounds to at most 2 powr ky\<close>
    have "x / 2 powr of_int ?ex \<le> 2 powr of_int (?kx + 1) / 2 powr of_int ?ex"
      using floor_log2_bounds(2) [OF assms(1)] by (simp add: divide_right_mono)
    also have "\<dots> \<le> 2 powr of_int ?ky / 2 powr of_int ?ex"
      using kk by (intro divide_right_mono powr_mono) simp_all
    also have "\<dots> = 2 powr of_int (?ky - ?ex)" by (simp only: powr2_diff)
    also have "\<dots> = of_int (2 ^ nat (?ky - ?ex))" using pos by (rule powr2_nonneg_int)
    finally have "round_half_even (x / 2 powr of_int ?ex) \<le> round_half_even (of_int (2 ^ nat (?ky - ?ex)))"
      by (rule round_half_even_mono)
    then have "round_half_even (x / 2 powr of_int ?ex) \<le> 2 ^ nat (?ky - ?ex)"
      by (simp only: round_half_even_of_int)
    then have "round_to_double x \<le> of_int (2 ^ nat (?ky - ?ex)) * 2 powr of_int ?ex"
      unfolding round_to_double_def by (intro mult_right_mono) (simp_all only: of_int_le_iff powr_ge_zero)
    moreover have "of_int (2 ^ nat (?ky - ?ex)) * 2 powr of_int ?ex = (2::real) powr of_int ?ky"
    proof -
      have "(2::real) powr of_int ?ky = 2 powr of_int ((?ky - ?ex) + ?ex)" by simp
      also have "\<dots> = 2 powr of_int (?ky - ?ex) * 2 powr of_int ?ex"
        by (simp only: of_int_add powr_add)
      finally show ?thesis using pos by (simp only: powr2_nonneg_int)
    qed
    ultimately have "round_to_double x \<le> 2 powr of_int ?ky" by simp
    with hi show ?thesis by linarith
  qed
qed

lemma abs_scaled_diff: "0 < p \<Longrightarrow> \<bar>m * p - x\<bar> = \<bar>m - x / p\<bar> * p" for m p x :: real
proof -
  assume p: "0 < p"
  then have "m * p - x = (m - x / p) * p" by (simp add: field_simps)
  then show ?thesis using p by (simp add: abs_mult)
qed

lemma round_to_double_error:
  assumes "1 / 2 ^ 1022 \<le> x"
  shows "\<bar>round_to_double x - x\<bar> \<le> x / 2 ^ 53"
proof -
  let ?k = "\<lfloor>log 2 x\<rfloor>" and ?e = "ulp_exponent x"
  have x: "0 < x" using assms by (smt (verit) divide_pos_pos zero_less_power)
  have "(2::real) powr of_int (- 1022) \<le> x" using assms by (simp add: powr_minus_divide)
  then have "of_int (- 1022) \<le> log 2 x" using x by (subst le_log_iff) simp_all
  then have k: "- 1022 \<le> ?k" by (simp only: le_floor_iff)
  have e: "?e = ?k - 52"
    unfolding ulp_exponent_def abs_of_pos [OF x] using k by linarith
  have p: "0 < (2::real) powr of_int ?e" by simp
  have "\<bar>round_to_double x - x\<bar>
        = \<bar>of_int (round_half_even (x / 2 powr of_int ?e)) - x / 2 powr of_int ?e\<bar> * 2 powr of_int ?e"
    unfolding round_to_double_def by (rule abs_scaled_diff [OF p])
  also have "\<dots> \<le> 1 / 2 * 2 powr of_int ?e"
    by (intro mult_right_mono round_half_even_error) simp
  also have "\<dots> = 2 powr of_int ?k / 2 ^ 53"
  proof -
    have "(2::real) powr of_int ?e = 2 powr of_int ?k / 2 powr of_int 52"
      unfolding e by (simp only: powr2_diff)
    then show ?thesis by simp
  qed
  also have "\<dots> \<le> x / 2 ^ 53"
    using floor_log2_bounds(1) [OF x] by (simp add: divide_right_mono)
  finally show ?thesis .
qed

lemma double_10: "round_to_double 10 = 10"
  by (subst round_to_double_eval [where k = 3 and e = "- 49"])
     (simp_all add: powr_minus_divide round_half_even_def)

lemma prod_349_03:
  "round_to_double (5404319552844595 / 2 ^ 54 * 349) = 7367607515401421 / 2 ^ 46"
  by (subst round_to_double_eval [where k = 6 and e = "- 46"])
     (simp_all add: powr_minus_divide round_half_even_def)

lemma thresholds_349:
  "fmul_ieee (ieee_round 0.3) (Fin 349) = Fin (7367607515401421 / 2 ^ 46)"
  by (simp only: ieee_consts fmul_ieee.simps) (simp only: ieee_round_def prod_349_03, simp)

lemma double_fixed:
  assumes "ieee_round D = Fin D"
  shows "round_to_double D = D" and "\<bar>D\<bar> < 2 ^ 1024"
  using assms by (auto simp: ieee_round_def Let_def split: if_splits)

lemma ieee_round_small:
  assumes "0 \<le> x" and "x \<le> D" and "0 < D" and "ieee_round D = Fin D"
  shows "ieee_round x = Fin (round_to_double x)" and "round_to_double x \<le> D"
proof -
  show le: "round_to_double x \<le> D"
  proof (cases "x = 0")
    case True
    then show ?thesis using assms(3) by (simp add: round_to_double_def round_half_even_def)
  next
    case False
    with assms(1) have "0 < x" by simp
    then have "round_to_double x \<le> round_to_double D" using assms(2) by (rule round_to_double_mono)
    then show ?thesis by (simp only: double_fixed(1) [OF assms(4)])
  qed
  have "0 \<le> round_to_double x" using assms(1) by (rule round_to_double_nonneg)
  with le double_fixed(2) [OF assms(4)] assms(3) have "\<bar>round_to_double x\<bar> < 2 ^ 1024" by linarith
  then show "ieee_round x = Fin (round_to_double x)"
    by (simp only: ieee_round_def Let_def not_le [symmetric] if_False)
qed

lemma ieee_round_double:
  assumes "0 < D" and "ieee_round D = Fin D"
  shows "fle (Fin D) (ieee_round (2 * D))"
proof -
  have "round_to_double D \<le> round_to_double (2 * D)"
    using assms(1) by (intro round_to_double_mono) simp_all
  then have "D \<le> round_to_double (2 * D)" by (simp only: double_fixed(1) [OF assms(2)])
  then show ?thesis using assms(1) by (simp add: ieee_round_def Let_def)
qed

lemma overlap_thresholds:
  assumes "0 < D" and "ieee_round D = Fin D"
  shows "fmul_ieee (ieee_round 0.3) (Fin D) = Fin (round_to_double (round_to_double 0.3 * D))"
    and "fmul_ieee (ieee_round 0.5) (Fin D) = Fin (round_to_double (round_to_double 0.5 * D))"
    and "fmul_ieee (ieee_round 0.7) (Fin D) = Fin (round_to_double (round_to_double 0.7 * D))"
    and "round_to_double (round_to_double 0.3 * D) \<le> round_to_double (round_to_double 0.5 * D)"
    and "round_to_double (round_to_double 0.5 * D) \<le> round_to_double (round_to_double 0.7 * D)"
    and "round_to_double (round_to_double 0.7 * D) \<le> D"
proof -
  have a: "0 \<le> 5404319552844595 / 2 ^ 54 * D" "5404319552844595 / 2 ^ 54 * D \<le> D"
    and b: "0 \<le> 1 / 2 * D" "1 / 2 * D \<le> D"
    and c: "0 \<le> 3152519739159347 / 2 ^ 52 * D" "3152519739159347 / 2 ^ 52 * D \<le> D"
    using assms(1) by simp_all
  show "fmul_ieee (ieee_round 0.3) (Fin D) = Fin (round_to_double (round_to_double 0.3 * D))"
    by (simp only: ieee_consts fmul_ieee.simps double_0_3 ieee_round_small(1) [OF a assms])
  show "fmul_ieee (ieee_round 0.5) (Fin D) = Fin (round_to_double (round_to_double 0.5 * D))"
    by (simp only: ieee_consts fmul_ieee.simps double_0_5 ieee_round_small(1) [OF b assms])
  show "fmul_ieee (ieee_round 0.7) (Fin D) = Fin (round_to_double (round_to_double 0.7 * D))"
    by (simp only: ieee_consts fmul_ieee.simps double_0_7 ieee_round_small(1) [OF c assms])
  have pa: "0 < 5404319552844595 / 2 ^ 54 * D" and pb: "0 < 1 / 2 * D"
    using assms(1) by simp_all
  have ab: "5404319552844595 / 2 ^ 54 * D \<le> 1 / 2 * D"
    and bc: "1 / 2 * D \<le> 3152519739159347 / 2 ^ 52 * D"
    using assms(1) by simp_all
  show "round_to_double (round_to_double 0.3 * D) \<le> round_to_double (round_to_double 0.5 * D)"
    unfolding double_0_3 double_0_5 using pa ab by (rule round_to_double_mono)
  show "round_to_double (round_to_double 0.5 * D) \<le> round_to_double (round_to_double 0.7 * D)"
    unfolding double_0_5 double_0_7 using pb bc by (rule round_to_double_mono)
  show "round_to_double (round_to_double 0.7 * D) \<le> D"
    unfolding double_0_7 by (rule ieee_round_small(2) [OF c assms])
qed

lemma rounding_errors_add:
  fixes r x t q :: real
  assumes "\<bar>r - x\<bar> \<le> x / q" and "x \<le> t" and "t - x \<le> t / q" and "0 < q"
  shows "\<bar>r - t\<bar> \<le> 2 * (t / q)"
proof -
  have "x / q \<le> t / q" using assms(2,4) by (simp add: divide_right_mono)
  with assms(1,2,3) show ?thesis by linarith
qed

lemma overlap_threshold_errors:
  assumes "1 / 2 ^ 1020 \<le> D"
  shows "\<bar>round_to_double (round_to_double 0.3 * D) - 0.3 * D\<bar> \<le> 0.3 * D / 2 ^ 52"
    and "\<bar>round_to_double (round_to_double 0.5 * D) - 0.5 * D\<bar> \<le> 0.5 * D / 2 ^ 52"
    and "\<bar>round_to_double (round_to_double 0.7 * D) - 0.7 * D\<bar> \<le> 0.7 * D / 2 ^ 52"
proof -
  have D: "0 < D" using assms by (smt (verit) divide_pos_pos zero_less_power)
  have "(1::real) / 2 ^ 1022 = 1 / 4 * (1 / 2 ^ 1020)" by simp
  also have "\<dots> \<le> 1 / 4 * D" using assms by (intro mult_left_mono) simp_all
  finally have q: "1 / 2 ^ 1022 \<le> 1 / 4 * D" .
  have a: "1 / 2 ^ 1022 \<le> 5404319552844595 / 2 ^ 54 * D"
  proof -
    have "1 / 4 * D \<le> 5404319552844595 / 2 ^ 54 * D" using D by simp
    with q show ?thesis by linarith
  qed
  have b: "1 / 2 ^ 1022 \<le> 1 / 2 * D"
  proof -
    have "1 / 4 * D \<le> 1 / 2 * D" using D by simp
    with q show ?thesis by linarith
  qed
  have c: "1 / 2 ^ 1022 \<le> 3152519739159347 / 2 ^ 52 * D"
  proof -
    have "1 / 4 * D \<le> 3152519739159347 / 2 ^ 52 * D" using D by simp
    with q show ?thesis by linarith
  qed
  have two: "2 * (t / 2 ^ 53) = t / 2 ^ 52" for t :: real by simp
  have "\<bar>round_to_double (5404319552844595 / 2 ^ 54 * D) - 0.3 * D\<bar> \<le> 2 * (0.3 * D / 2 ^ 53)"
    using round_to_double_error [OF a]
  proof (rule rounding_errors_add)
    show "5404319552844595 / 2 ^ 54 * D \<le> 0.3 * D" using D by simp
    show "0.3 * D - 5404319552844595 / 2 ^ 54 * D \<le> 0.3 * D / 2 ^ 53" using D by (simp add: field_simps)
  qed simp
  then show "\<bar>round_to_double (round_to_double 0.3 * D) - 0.3 * D\<bar> \<le> 0.3 * D / 2 ^ 52"
    unfolding double_0_3 by (simp only: two)
  have "\<bar>round_to_double (1 / 2 * D) - 0.5 * D\<bar> \<le> 2 * (0.5 * D / 2 ^ 53)"
    using round_to_double_error [OF b]
  proof (rule rounding_errors_add)
    show "1 / 2 * D \<le> 0.5 * D" by simp
    show "0.5 * D - 1 / 2 * D \<le> 0.5 * D / 2 ^ 53" using D by simp
  qed simp
  then show "\<bar>round_to_double (round_to_double 0.5 * D) - 0.5 * D\<bar> \<le> 0.5 * D / 2 ^ 52"
    unfolding double_0_5 by (simp only: two)
  have "\<bar>round_to_double (3152519739159347 / 2 ^ 52 * D) - 0.7 * D\<bar> \<le> 2 * (0.7 * D / 2 ^ 53)"
    using round_to_double_error [OF c]
  proof (rule rounding_errors_add)
    show "3152519739159347 / 2 ^ 52 * D \<le> 0.7 * D" using D by simp
    show "0.7 * D - 3152519739159347 / 2 ^ 52 * D \<le> 0.7 * D / 2 ^ 53" using D by (simp add: field_simps)
  qed simp
  then show "\<bar>round_to_double (round_to_double 0.7 * D) - 0.7 * D\<bar> \<le> 0.7 * D / 2 ^ 52"
    unfolding double_0_7 by (simp only: two)
qed

subsection \<open>The calculations\<close>

text \<open>
  C1, as the code has it. For a diameter \<open>D > 0\<close> that is a double, the overlap percent is
  piecewise in the depth of cut \<open>a\<close>, every threshold belonging to the lower piece, and the
  thresholds are the products as the machine computes them: the double nearest to 0.3
  times \<open>D\<close>, rounded, then 0.5 times \<open>D\<close> rounded, the double nearest to 0.7 times \<open>D\<close>
  rounded, \<open>D\<close> itself, and 2 times \<open>D\<close> rounded. They are in this order. Up to the first
  the percent is 100, then 70, 50, 30, 10, and above the last there is no value. For
  \<open>D\<close> of at least \<open>2 powr -1020\<close> the first three thresholds are within a relative
  \<open>2 powr -52\<close> of \<open>0.3 D\<close>, \<open>0.5 D\<close> and \<open>0.7 D\<close>. For \<open>D = 10\<close> the depths 3, 5, 7, 10, 20
  and 21 give 100, 70, 50, 30, 10 and no value.
\<close>

theorem calculate_overlap_piecewise:
  assumes "0 < D" and "ieee_round D = Fin D"
  shows "round_to_double (round_to_double 0.3 * D) \<le> round_to_double (round_to_double 0.5 * D)
       \<and> round_to_double (round_to_double 0.5 * D) \<le> round_to_double (round_to_double 0.7 * D)
       \<and> round_to_double (round_to_double 0.7 * D) \<le> D
       \<and> fle (Fin D) (ieee_round (2 * D))
       \<and> (a \<le> round_to_double (round_to_double 0.3 * D) \<longrightarrow>
            calculate_overlap (Fin D) (Fin a) = Some 100)
       \<and> (round_to_double (round_to_double 0.3 * D) < a
            \<and> a \<le> round_to_double (round_to_double 0.5 * D) \<longrightarrow>
            calculate_overlap (Fin D) (Fin a) = Some 70)
       \<and> (round_to_double (round_to_double 0.5 * D) < a
            \<and> a \<le> round_to_double (round_to_double 0.7 * D) \<longrightarrow>
            calculate_overlap (Fin D) (Fin a) = Some 50)
       \<and> (round_to_double (round_to_double 0.7 * D) < a \<and> a \<le> D \<longrightarrow>
            calculate_overlap (Fin D) (Fin a) = Some 30)
       \<and> (D < a \<and> fle (Fin a) (ieee_round (2 * D)) \<longrightarrow>
            calculate_overlap (Fin D) (Fin a) = Some 10)
       \<and> (\<not> fle (Fin a) (ieee_round (2 * D)) \<longrightarrow>
            calculate_overlap (Fin D) (Fin a) = None)
       \<and> (1 / 2 ^ 1020 \<le> D \<longrightarrow>
            \<bar>round_to_double (round_to_double 0.3 * D) - 0.3 * D\<bar> \<le> 0.3 * D / 2 ^ 52
            \<and> \<bar>round_to_double (round_to_double 0.5 * D) - 0.5 * D\<bar> \<le> 0.5 * D / 2 ^ 52
            \<and> \<bar>round_to_double (round_to_double 0.7 * D) - 0.7 * D\<bar> \<le> 0.7 * D / 2 ^ 52)
       \<and> calculate_overlap (Fin 10) (Fin 3) = Some 100
       \<and> calculate_overlap (Fin 10) (Fin 5) = Some 70
       \<and> calculate_overlap (Fin 10) (Fin 7) = Some 50
       \<and> calculate_overlap (Fin 10) (Fin 10) = Some 30
       \<and> calculate_overlap (Fin 10) (Fin 20) = Some 10
       \<and> calculate_overlap (Fin 10) (Fin 21) = None"
proof -
  note t = overlap_thresholds [OF assms]
  note top = ieee_round_double [OF assms]
  have ov: "calculate_overlap (Fin D) (Fin a) =
      (if a \<le> round_to_double (round_to_double 0.3 * D) then Some 100
       else if a \<le> round_to_double (round_to_double 0.5 * D) then Some 70
       else if a \<le> round_to_double (round_to_double 0.7 * D) then Some 50
       else if a \<le> D then Some 30
       else if fle (Fin a) (ieee_round (2 * D)) then Some 10
       else None)"
    by (simp only: calculate_overlap_def t(1,2,3) fmul_ieee.simps fle.simps)
  have beyond: "D < a" if "\<not> fle (Fin a) (ieee_round (2 * D))"
    using that top by (cases "ieee_round (2 * D)") (simp_all split: if_splits)
  have c1: "calculate_overlap (Fin D) (Fin a) = Some 100"
    if "a \<le> round_to_double (round_to_double 0.3 * D)"
    using that by (simp only: ov if_True)
  have c2: "calculate_overlap (Fin D) (Fin a) = Some 70"
    if "round_to_double (round_to_double 0.3 * D) < a
        \<and> a \<le> round_to_double (round_to_double 0.5 * D)"
    using that unfolding ov by simp
  have c3: "calculate_overlap (Fin D) (Fin a) = Some 50"
    if "round_to_double (round_to_double 0.5 * D) < a
        \<and> a \<le> round_to_double (round_to_double 0.7 * D)"
    using that t(4) unfolding ov by simp
  have c4: "calculate_overlap (Fin D) (Fin a) = Some 30"
    if "round_to_double (round_to_double 0.7 * D) < a \<and> a \<le> D"
    using that t(4,5) unfolding ov by simp
  have c5: "calculate_overlap (Fin D) (Fin a) = Some 10"
    if "D < a \<and> fle (Fin a) (ieee_round (2 * D))"
    using that t(4,5,6) unfolding ov by simp
  have c6: "calculate_overlap (Fin D) (Fin a) = None"
    if "\<not> fle (Fin a) (ieee_round (2 * D))"
    using that beyond [OF that] t(4,5,6) unfolding ov by simp
  have err: "\<bar>round_to_double (round_to_double 0.3 * D) - 0.3 * D\<bar> \<le> 0.3 * D / 2 ^ 52
            \<and> \<bar>round_to_double (round_to_double 0.5 * D) - 0.5 * D\<bar> \<le> 0.5 * D / 2 ^ 52
            \<and> \<bar>round_to_double (round_to_double 0.7 * D) - 0.7 * D\<bar> \<le> 0.7 * D / 2 ^ 52"
    if "1 / 2 ^ 1020 \<le> D"
    using overlap_threshold_errors [OF that] by blast
  from t(4,5,6) top c1 c2 c3 c4 c5 c6 err overlap_10 show ?thesis by blast
qed

theorem calculate_overlap_piecewise_witness:
  "(0::real) < 10 \<and> ieee_round 10 = Fin 10
   \<and> round_to_double (round_to_double 0.3 * 10) = 3
   \<and> round_to_double (round_to_double 0.5 * 10) = 5
   \<and> (3::real) < 4 \<and> (4::real) \<le> 5
   \<and> calculate_overlap (Fin 10) (Fin 4) = Some 70
   \<and> (1::real) / 2 ^ 1020 \<le> 10
   \<and> \<bar>round_to_double (round_to_double 0.3 * 10) - 0.3 * 10\<bar> \<le> 0.3 * 10 / 2 ^ 52"
proof -
  have d: "ieee_round 10 = Fin 10"
    unfolding ieee_round_def double_10 by simp
  have r1: "round_to_double (round_to_double 0.3 * 10) = 3"
    unfolding double_0_3 by (rule prod_10_03)
  have r2: "round_to_double (round_to_double 0.5 * 10) = 5"
    unfolding double_0_5 by (rule prod_10_05)
  have small: "(1::real) / 2 ^ 1020 \<le> 10" by simp
  show ?thesis
    using calculate_overlap_piecewise [of 10 4, OF _ d] d small
    unfolding r1 r2 by simp
qed

text \<open>
  C1 as stated, with the thresholds \<open>0.3 D\<close> and \<open>0.5 D\<close> themselves, fails next to a
  threshold. For \<open>D = 3\<close> the rounded product is just below 0.9 and the depth 0.9 gives 70,
  not 100. For \<open>D = 349\<close> the rounded product is the double nearest to 104.7, which is
  above \<open>0.3 D\<close>, and that depth gives 100, not 70.
\<close>

theorem calculate_overlap_counterexample:
  "(0.9::real) \<le> 0.3 * 3
   \<and> calculate_overlap (Fin 3) (Fin 0.9) = Some 70
   \<and> (0.3::real) * 349 < 7367607515401421 / 2 ^ 46
   \<and> (7367607515401421::real) / 2 ^ 46 \<le> 0.5 * 349
   \<and> calculate_overlap (Fin 349) (Fin (7367607515401421 / 2 ^ 46)) = Some 100"
proof -
  have a: "calculate_overlap (Fin 349) (Fin (7367607515401421 / 2 ^ 46)) = Some 100"
    unfolding calculate_overlap_def thresholds_349 by simp
  show ?thesis using overlap_3 a by simp
qed


text \<open>
  C2. For \<open>0 \<le> a \<le> D\<close> the cutting width of the ball-nose (spherical) mill is
  \<open>2 sqrt (a (D - a))\<close>: 8 for \<open>D = 10\<close>, \<open>a = 2\<close> and 0 for \<open>D = 10\<close>, \<open>a = 10\<close>. For the
  cylindrical mill it is \<open>0.5 D\<close>, and for any other subtype nothing is computed.
\<close>

theorem calculate_cutting_width_formula:
  "(0 \<le> a \<and> a \<le> D \<longrightarrow>
      calculate_cutting_width (Fin D) (Fin a) sfericheskaya
        = Inr (Some (Fin (2 * sqrt (a * (D - a))))))
   \<and> calculate_cutting_width (Fin 10) (Fin 2) sfericheskaya = Inr (Some (Fin 8))
   \<and> calculate_cutting_width (Fin 10) (Fin 10) sfericheskaya = Inr (Some (Fin 0))
   \<and> calculate_cutting_width (Fin D) x tsilindricheskaya = Inr (Some (Fin (0.5 * D)))
   \<and> (st \<noteq> tsilindricheskaya \<and> st \<noteq> sfericheskaya \<longrightarrow>
        calculate_cutting_width d x st = Inr None)"
proof -
  have ball: "calculate_cutting_width (Fin D) (Fin a) sfericheskaya
                = Inr (Some (Fin (2 * sqrt (a * (D - a)))))" if "0 \<le> a \<and> a \<le> D"
  proof -
    from that have "0 \<le> a * (D - a)" by simp
    then show ?thesis
      by (simp add: calculate_cutting_width_def sfericheskaya_def tsilindricheskaya_def not_less)
  qed
  have two: "calculate_cutting_width (Fin 10) (Fin 2) sfericheskaya = Inr (Some (Fin 8))"
    by (simp add: calculate_cutting_width_def sfericheskaya_def tsilindricheskaya_def sqrt_16)
  have ten: "calculate_cutting_width (Fin 10) (Fin 10) sfericheskaya = Inr (Some (Fin 0))"
    by (simp add: calculate_cutting_width_def sfericheskaya_def tsilindricheskaya_def)
  have cyl: "calculate_cutting_width (Fin D) x tsilindricheskaya = Inr (Some (Fin (0.5 * D)))"
    by (simp add: calculate_cutting_width_def)
  have other: "calculate_cutting_width d x st = Inr None"
    if "st \<noteq> tsilindricheskaya \<and> st \<noteq> sfericheskaya"
    using that by (simp add: calculate_cutting_width_def)
  from ball two ten cyl other show ?thesis by blast
qed

theorem calculate_cutting_width_formula_witness:
  "(0::real) \<le> 3 \<and> (3::real) \<le> 6
   \<and> calculate_cutting_width (Fin 6) (Fin 3) sfericheskaya = Inr (Some (Fin 6))
   \<and> tortsevaya \<noteq> tsilindricheskaya \<and> tortsevaya \<noteq> sfericheskaya
   \<and> calculate_cutting_width (Fin 6) (Fin 3) tortsevaya = Inr None"
  using calculate_cutting_width_formula [of 3 6 "Fin 3" tortsevaya "Fin 6"]
  by (simp add: sqrt_9 key_defs)

subsection \<open>The catalog\<close>

text \<open>
  C9. On every complete path of the catalog (material, operation, tool type, and subtype or
  dimension) the entry has \<open>min \<le> max\<close> in each range it holds: speed, feed and, when
  present, depth. For the two turning tools the entry sits one level deeper, under the
  float key.
\<close>

theorem catalog_ranges_ordered:
  assumes "catalog_path m op tt k = Some nd"
    and "nd = Entry e \<or> (\<exists>d x. nd = Floats d \<and> map_of d x = Some e)"
  shows "fst (skorost e) \<le> snd (skorost e) \<and> fst (podacha e) \<le> snd (podacha e)
         \<and> (\<forall>g. glubina e = Some g \<longrightarrow> fst g \<le> snd g)"
  using assms
  by (auto simp: catalog_path_def cutting_parameters_def key_defs split: if_splits option.splits)

theorem catalog_ranges_ordered_witness:
  "catalog_path stal tochenie kanavochny shirina_plastiny
     = Some (Floats [
         (2.0, \<lparr>skorost = (40, 60), podacha = (0.05, 0.15), glubina = None\<rparr>),
         (3.0, \<lparr>skorost = (50, 70), podacha = (0.08, 0.2), glubina = None\<rparr>),
         (4.0, \<lparr>skorost = (60, 80), podacha = (0.1, 0.25), glubina = None\<rparr>)])
   \<and> map_of [
         (2.0::real, \<lparr>skorost = (40, 60), podacha = (0.05, 0.15), glubina = None\<rparr>),
         (3.0, \<lparr>skorost = (50, 70), podacha = (0.08, 0.2), glubina = None\<rparr>),
         (4.0, \<lparr>skorost = (60, 80), podacha = (0.1, 0.25), glubina = None\<rparr>)] 3
       = Some \<lparr>skorost = (50, 70), podacha = (0.08, 0.2), glubina = None\<rparr>
   \<and> fst (skorost \<lparr>skorost = (50, 70), podacha = (0.08, 0.2), glubina = None\<rparr>)
       \<le> snd (skorost \<lparr>skorost = (50, 70), podacha = (0.08, 0.2), glubina = None\<rparr>)
   \<and> catalog_path stal sverlenie monolitnoe (cp ''hss'')
       = Some (Entry \<lparr>skorost = (30, 50), podacha = (0.05, 0.12), glubina = Some (1, 8)\<rparr>)
   \<and> glubina \<lparr>skorost = (30, 50), podacha = (0.05, 0.12), glubina = Some (1, 8)\<rparr>
       = Some (1, 8)
   \<and> fst (1::real, 8::real) \<le> snd (1::real, 8::real)"
  using catalog_ranges_ordered [of stal tochenie kanavochny shirina_plastiny _
          "\<lparr>skorost = (50, 70), podacha = (0.08, 0.2), glubina = None\<rparr>"]
        catalog_ranges_ordered [of stal sverlenie monolitnoe "cp ''hss''" _
          "\<lparr>skorost = (30, 50), podacha = (0.05, 0.12), glubina = Some (1, 8)\<rparr>"]
  by (simp add: catalog_path_def cutting_parameters_def key_defs)

subsection \<open>The catalog lookup\<close>

text \<open>
  C10. \<open>get_cutting_parameters\<close> returns a value, an entry or \<open>None\<close>, on every content of
  the session data and raises nothing. It returns \<open>None\<close> when the material, the
  operation or the tool type is missing (or empty), and when the operation and the tool
  type fit none of its branches.
\<close>

theorem get_cutting_parameters_total:
  "(\<exists>r. get_cutting_parameters ud = Inr r)
   \<and> (\<not> truthy_str (ud_material ud) \<or> \<not> truthy_str (ud_operation ud)
        \<or> \<not> truthy_str (ud_tool_type ud)
        \<longrightarrow> get_cutting_parameters ud = Inr None)
   \<and> (ud_operation ud \<notin> {Some frezerovanie, Some tochenie, Some sverlenie}
        \<longrightarrow> get_cutting_parameters ud = Inr None)
   \<and> (ud_operation ud = Some frezerovanie
        \<and> ud_tool_type ud \<notin> {Some monolitnaya, Some s_plastinami}
        \<longrightarrow> get_cutting_parameters ud = Inr None)
   \<and> (ud_operation ud = Some tochenie
        \<and> ud_tool_type ud \<notin> {Some prokhodnoy, Some kanavochny}
        \<longrightarrow> get_cutting_parameters ud = Inr None)
   \<and> (ud_operation ud = Some sverlenie
        \<and> ud_tool_type ud \<notin> {Some monolitnoe, Some so_smennymi_plastinami}
        \<longrightarrow> get_cutting_parameters ud = Inr None)"
proof -
  have total: "\<exists>r. get_cutting_parameters ud = Inr r"
  proof (cases "get_cutting_parameters ud")
    case (Inl e)
    then show ?thesis
      by (auto simp: get_cutting_parameters_def
            split: if_splits option.splits sum.splits error.splits
            dest: try_raises_only_KeyError)
  next
    case (Inr r)
    then show ?thesis by blast
  qed
  have missing: "get_cutting_parameters ud = Inr None"
    if "\<not> truthy_str (ud_material ud) \<or> \<not> truthy_str (ud_operation ud)
        \<or> \<not> truthy_str (ud_tool_type ud)"
    using that by (auto simp: get_cutting_parameters_def)
  have other_op: "get_cutting_parameters ud = Inr None"
    if "ud_operation ud \<notin> {Some frezerovanie, Some tochenie, Some sverlenie}"
    using that
    by (auto simp: get_cutting_parameters_def get_cutting_parameters_try_def key_defs
          split: option.splits)
  have mill: "get_cutting_parameters ud = Inr None"
    if "ud_operation ud = Some frezerovanie
        \<and> ud_tool_type ud \<notin> {Some monolitnaya, Some s_plastinami}"
    using that
    by (auto simp: get_cutting_parameters_def get_cutting_parameters_try_def key_defs
          split: option.splits)
  have turn: "get_cutting_parameters ud = Inr None"
    if "ud_operation ud = Some tochenie
        \<and> ud_tool_type ud \<notin> {Some prokhodnoy, Some kanavochny}"
    using that
    by (auto simp: get_cutting_parameters_def get_cutting_parameters_try_def key_defs
          split: option.splits)
  have drill: "get_cutting_parameters ud = Inr None"
    if "ud_operation ud = Some sverlenie
        \<and> ud_tool_type ud \<notin> {Some monolitnoe, Some so_smennymi_plastinami}"
    using that
    by (auto simp: get_cutting_parameters_def get_cutting_parameters_try_def key_defs
          split: option.splits)
  from total missing other_op mill turn drill show ?thesis by blast
qed

theorem get_cutting_parameters_total_witness:
  "\<not> truthy_str (ud_material empty_user_data)
   \<and> get_cutting_parameters empty_user_data = Inr None
   \<and> ud_operation (empty_user_data\<lparr>ud_material := Some stal, ud_operation := Some karbid,
        ud_tool_type := Some monolitnaya\<rparr>) \<notin> {Some frezerovanie, Some tochenie, Some sverlenie}
   \<and> get_cutting_parameters (empty_user_data\<lparr>ud_material := Some stal,
        ud_operation := Some karbid, ud_tool_type := Some monolitnaya\<rparr>) = Inr None
   \<and> get_cutting_parameters (empty_user_data\<lparr>ud_material := Some stal,
        ud_operation := Some frezerovanie, ud_tool_type := Some prokhodnoy\<rparr>) = Inr None
   \<and> get_cutting_parameters (empty_user_data\<lparr>ud_material := Some stal,
        ud_operation := Some tochenie, ud_tool_type := Some monolitnaya\<rparr>) = Inr None
   \<and> get_cutting_parameters (empty_user_data\<lparr>ud_material := Some stal,
        ud_operation := Some sverlenie, ud_tool_type := Some prokhodnoy\<rparr>) = Inr None"
  using get_cutting_parameters_total [of empty_user_data]
    get_cutting_parameters_total [of "empty_user_data\<lparr>ud_material := Some stal,
        ud_operation := Some karbid, ud_tool_type := Some monolitnaya\<rparr>"]
    get_cutting_parameters_total [of "empty_user_data\<lparr>ud_material := Some stal,
        ud_operation := Some frezerovanie, ud_tool_type := Some prokhodnoy\<rparr>"]
    get_cutting_parameters_total [of "empty_user_data\<lparr>ud_material := Some stal,
        ud_operation := Some tochenie, ud_tool_type := Some monolitnaya\<rparr>"]
    get_cutting_parameters_total [of "empty_user_data\<lparr>ud_material := Some stal,
        ud_operation := Some sverlenie, ud_tool_type := Some prokhodnoy\<rparr>"]
  by (simp add: empty_user_data_def key_defs)

text \<open>
  C8. On the turning paths the lookup is by the insert radius (profiling tool) or the insert
  width (grooving tool), and only a value equal to one of the catalog's keys finds an
  entry: 0.4, 0.8, 1.2 for the radius and 2, 3, 4 for the width. Any other value that
  parses, near a key or not, zero or non-finite, finds nothing, and the handler ends the
  conversation with the message that the parameters could not be obtained. Neither
  handler raises an exception, on any session data and any text.
\<close>

theorem dimension_lookup_exact:
  assumes "ud_material ud = Some m" and "m = stal \<or> m = tsvetnoy_metall"
    and "ud_operation ud = Some tochenie"
    and "py_float (py_replace 0x2C 0x2E txt) = Inr f"
  shows "(ud_tool_type ud = Some prokhodnoy \<and> f \<notin> {Fin 0.4, Fin 0.8, Fin 1.2} \<longrightarrow>
            get_cutting_parameters (ud\<lparr>ud_radius := Some f\<rparr>) = Inr None
            \<and> radius ud txt = (Inr (Some END), ud\<lparr>ud_radius := Some f\<rparr>,
                               [([Lit msg_no_params], None)]))
       \<and> (ud_tool_type ud = Some prokhodnoy \<and> f \<in> {Fin 0.4, Fin 0.8, Fin 1.2} \<longrightarrow>
            (\<exists>d v e. catalog_path m tochenie prokhodnoy radius_plastiny = Some (Floats d)
               \<and> f = Fin v \<and> map_of d v = Some e
               \<and> get_cutting_parameters (ud\<lparr>ud_radius := Some f\<rparr>) = Inr (Some (Entry e)))
            \<and> fst (radius ud txt) = Inr (Some END))
       \<and> (ud_tool_type ud = Some kanavochny \<and> f \<notin> {Fin 2, Fin 3, Fin 4} \<longrightarrow>
            get_cutting_parameters (ud\<lparr>ud_groove_width := Some f\<rparr>) = Inr None
            \<and> groove_width ud txt = (Inr (Some END), ud\<lparr>ud_groove_width := Some f\<rparr>,
                                     [([Lit msg_no_params], None)]))
       \<and> (ud_tool_type ud = Some kanavochny \<and> f \<in> {Fin 2, Fin 3, Fin 4} \<longrightarrow>
            (\<exists>d v e. catalog_path m tochenie kanavochny shirina_plastiny = Some (Floats d)
               \<and> f = Fin v \<and> map_of d v = Some e
               \<and> get_cutting_parameters (ud\<lparr>ud_groove_width := Some f\<rparr>) = Inr (Some (Entry e)))
            \<and> fst (groove_width ud txt) = Inr (Some END))
       \<and> (\<exists>s. fst (radius ud' txt') = Inr s)
       \<and> (\<exists>s. fst (groove_width ud' txt') = Inr s)"
proof -
  have r_miss: "get_cutting_parameters (ud\<lparr>ud_radius := Some f\<rparr>) = Inr None
      \<and> radius ud txt = (Inr (Some END), ud\<lparr>ud_radius := Some f\<rparr>, [([Lit msg_no_params], None)])"
    if "ud_tool_type ud = Some prokhodnoy \<and> f \<notin> {Fin 0.4, Fin 0.8, Fin 1.2}"
  proof -
    from that assms have g: "get_cutting_parameters (ud\<lparr>ud_radius := Some f\<rparr>) = Inr None"
      using radius_lookup(1) [of ud m f] by blast
    with assms(4) show ?thesis by (simp add: radius_def radius_try_def)
  qed
  have r_hit: "(\<exists>d v e. catalog_path m tochenie prokhodnoy radius_plastiny = Some (Floats d)
               \<and> f = Fin v \<and> map_of d v = Some e
               \<and> get_cutting_parameters (ud\<lparr>ud_radius := Some f\<rparr>) = Inr (Some (Entry e)))
            \<and> fst (radius ud txt) = Inr (Some END)"
    if "ud_tool_type ud = Some prokhodnoy \<and> f \<in> {Fin 0.4, Fin 0.8, Fin 1.2}"
  proof -
    from that assms obtain d v e where
      p: "catalog_path m tochenie prokhodnoy radius_plastiny = Some (Floats d)"
        "f = Fin v" "map_of d v = Some e"
        "get_cutting_parameters (ud\<lparr>ud_radius := Some f\<rparr>) = Inr (Some (Entry e))"
      using radius_lookup(2) [of ud m f] by blast
    from p(4) assms(1,3,4) have "fst (radius ud txt) = Inr (Some END)"
      by (simp add: radius_def radius_try_def Let_def)
    with p show ?thesis by blast
  qed
  have g_miss: "get_cutting_parameters (ud\<lparr>ud_groove_width := Some f\<rparr>) = Inr None
      \<and> groove_width ud txt = (Inr (Some END), ud\<lparr>ud_groove_width := Some f\<rparr>,
                               [([Lit msg_no_params], None)])"
    if "ud_tool_type ud = Some kanavochny \<and> f \<notin> {Fin 2, Fin 3, Fin 4}"
  proof -
    from that assms have g: "get_cutting_parameters (ud\<lparr>ud_groove_width := Some f\<rparr>) = Inr None"
      using groove_lookup(1) [of ud m f] by blast
    with assms(4) show ?thesis by (simp add: groove_width_def groove_width_try_def)
  qed
  have g_hit: "(\<exists>d v e. catalog_path m tochenie kanavochny shirina_plastiny = Some (Floats d)
               \<and> f = Fin v \<and> map_of d v = Some e
               \<and> get_cutting_parameters (ud\<lparr>ud_groove_width := Some f\<rparr>) = Inr (Some (Entry e)))
            \<and> fst (groove_width ud txt) = Inr (Some END)"
    if "ud_tool_type ud = Some kanavochny \<and> f \<in> {Fin 2, Fin 3, Fin 4}"
  proof -
    from that assms obtain d v e where
      p: "catalog_path m tochenie kanavochny shirina_plastiny = Some (Floats d)"
        "f = Fin v" "map_of d v = Some e"
        "get_cutting_parameters (ud\<lparr>ud_groove_width := Some f\<rparr>) = Inr (Some (Entry e))"
      using groove_lookup(2) [of ud m f] by blast
    from p(4) assms(1,3,4) have "fst (groove_width ud txt) = Inr (Some END)"
      by (simp add: groove_width_def groove_width_try_def Let_def)
    with p show ?thesis by blast
  qed
  from r_miss r_hit g_miss g_hit radius_returns [of ud' txt'] groove_width_returns [of ud' txt']
  show ?thesis by blast
qed

theorem dimension_lookup_exact_witness:
  "ud_material (empty_user_data\<lparr>ud_material := Some stal, ud_operation := Some tochenie,
       ud_tool_type := Some prokhodnoy\<rparr>) = Some stal
   \<and> ud_operation (empty_user_data\<lparr>ud_material := Some stal, ud_operation := Some tochenie,
       ud_tool_type := Some prokhodnoy\<rparr>) = Some tochenie
   \<and> py_float (py_replace 0x2C 0x2E (cp ''0,5'')) = Inr (Fin 0.5)
   \<and> Fin 0.5 \<notin> {Fin 0.4, Fin 0.8, Fin 1.2}
   \<and> radius (empty_user_data\<lparr>ud_material := Some stal, ud_operation := Some tochenie,
         ud_tool_type := Some prokhodnoy\<rparr>) (cp ''0,5'')
       = (Inr (Some END),
          empty_user_data\<lparr>ud_material := Some stal, ud_operation := Some tochenie,
            ud_tool_type := Some prokhodnoy, ud_radius := Some (Fin 0.5)\<rparr>,
          [([Lit msg_no_params], None)])
   \<and> py_float (py_replace 0x2C 0x2E (cp ''3'')) = Inr (Fin 3)
   \<and> Fin 3 \<in> {Fin 2, Fin 3, Fin 4}
   \<and> fst (groove_width (empty_user_data\<lparr>ud_material := Some stal, ud_operation := Some tochenie,
         ud_tool_type := Some kanavochny\<rparr>) (cp ''3'')) = Inr (Some END)"
proof -
  have p1: "py_float (py_replace 0x2C 0x2E (cp ''0,5'')) = Inr (Fin 0.5)"
    by (simp add: parse_defs)
  have p2: "py_float (py_replace 0x2C 0x2E (cp ''3'')) = Inr (Fin 3)"
    by (simp add: parse_defs)
  show ?thesis
    using dimension_lookup_exact [of "empty_user_data\<lparr>ud_material := Some stal,
              ud_operation := Some tochenie, ud_tool_type := Some prokhodnoy\<rparr>"
            stal "cp ''0,5''" "Fin 0.5", OF _ _ _ p1]
          dimension_lookup_exact [of "empty_user_data\<lparr>ud_material := Some stal,
              ud_operation := Some tochenie, ud_tool_type := Some kanavochny\<rparr>"
            stal "cp ''3''" "Fin 3", OF _ _ _ p2]
          p1 p2
    by simp
qed

subsection \<open>The prompts\<close>

text \<open>
  C4. At the material, operation and tool-type prompts a text that, in lower case, is no key
  of the catalog at the path chosen so far ends the conversation with the "cannot find
  parameters" reply of that prompt; nothing is asked again. The text is lowercased before
  it is compared, so two texts that agree in lower case are treated alike. The text
  \<open>/start\<close> is the restart token of C7 and no answer, hence the hypothesis.
\<close>

theorem unknown_choice_ends_conversation:
  assumes "py_lower txt \<noteq> cp ''/start''"
  shows "(map_of cutting_parameters (py_lower txt) = None \<longrightarrow>
            material ud txt = (Inr (Some END), ud\<lparr>ud_material := Some (py_lower txt)\<rparr>,
                               [([Lit msg_material_not_found], None)]))
       \<and> (ud_material ud = Some m \<and> map_of cutting_parameters m = Some ops
            \<and> map_of ops (py_lower txt) = None \<longrightarrow>
            operation ud txt = (Inr (Some END), ud\<lparr>ud_operation := Some (py_lower txt)\<rparr>,
                                [([Lit msg_operation_not_found], None)]))
       \<and> (ud_material ud = Some m \<and> ud_operation ud = Some op
            \<and> map_of cutting_parameters m = Some ops \<and> map_of ops op = Some tools
            \<and> map_of tools (py_lower txt) = None \<longrightarrow>
            tool_type ud txt = (Inr (Some END), ud\<lparr>ud_tool_type := Some (py_lower txt)\<rparr>,
                                [([Lit msg_tool_type_not_found], None)]))
       \<and> (py_lower txt' = py_lower txt \<longrightarrow>
            material ud txt' = material ud txt \<and> operation ud txt' = operation ud txt
            \<and> tool_type ud txt' = tool_type ud txt)"
  using assms
  by (auto simp: material_def operation_def tool_type_def getitem_def Let_def)

theorem unknown_choice_ends_conversation_witness:
  "py_lower (cp ''Wood'') \<noteq> cp ''/start''
   \<and> map_of cutting_parameters (py_lower (cp ''Wood'')) = None
   \<and> material empty_user_data (cp ''Wood'')
       = (Inr (Some END), empty_user_data\<lparr>ud_material := Some (cp ''wood'')\<rparr>,
          [([Lit msg_material_not_found], None)])
   \<and> map_of (the (map_of cutting_parameters stal)) (py_lower (cp ''Wood'')) = None
   \<and> operation (empty_user_data\<lparr>ud_material := Some stal\<rparr>) (cp ''Wood'')
       = (Inr (Some END),
          empty_user_data\<lparr>ud_material := Some stal, ud_operation := Some (cp ''wood'')\<rparr>,
          [([Lit msg_operation_not_found], None)])
   \<and> py_lower [0x421, 0x422, 0x410, 0x41B, 0x42C] = py_lower stal
   \<and> material empty_user_data [0x421, 0x422, 0x410, 0x41B, 0x42C]
       = material empty_user_data stal"
  using unknown_choice_ends_conversation [of "cp ''Wood''" empty_user_data]
    unknown_choice_ends_conversation [of "cp ''Wood''"
      "empty_user_data\<lparr>ud_material := Some stal\<rparr>" stal
      "the (map_of cutting_parameters stal)"]
    unknown_choice_ends_conversation [of stal empty_user_data _ _ _ _
      "[0x421, 0x422, 0x410, 0x41B, 0x42C]"]
  by (simp add: py_lower_def lower_cp_def cutting_parameters_def key_defs)



subsection \<open>Restart\<close>

text \<open>
  C7. In every state of the conversation, and outside one, the command \<open>/start\<close> runs
  \<open>start\<close>: the session data become empty and the state becomes \<open>MATERIAL\<close>, whatever
  the session held. The four menu handlers do the same when the text itself is \<open>/start\<close>.
\<close>

theorem restart_from_every_state:
  "handle_update s ud (Command (cp ''start'')) =
     (MATERIAL, empty_user_data,
      [([Lit msg_start], Some (keyboard [[Lit stal], [Lit tsvetnoy_metall]]))])
   \<and> start ud = (Inr (Some MATERIAL), empty_user_data,
        [([Lit msg_start], Some (keyboard [[Lit stal], [Lit tsvetnoy_metall]]))])
   \<and> material ud (cp ''/start'') = start ud
   \<and> operation ud (cp ''/start'') = start ud
   \<and> tool_type ud (cp ''/start'') = start ud
   \<and> tool_subtype ud (cp ''/start'') = start ud"
  by (simp add: handle_update_def start_def cp_def material_def operation_def tool_type_def
        tool_subtype_def py_lower_def lower_cp_def)

subsection \<open>Depth of cut beyond the diameter\<close>

text \<open>
  C3, as the code has it. On the milling path with the solid spherical (ball-nose) mill, a
  depth of cut \<open>a\<close> above a positive diameter \<open>D\<close> is not rejected before the square root:
  the root of the negative product is attempted and raises \<open>ValueError\<close>, which the
  handler's own \<open>except ValueError\<close> clause catches. The handler replies with the "enter a
  numeric value for the depth of cut" message and returns \<open>DEPTH_OF_CUT\<close>, the depth already
  stored; no exception leaves the handler. This is for \<open>a (a - D)\<close> of at least
  \<open>2 powr -1022\<close>, the smallest normal double: a smaller product can underflow to a zero
  in the machine, whose root does not raise.
\<close>

theorem depth_beyond_diameter_reprompts:
  assumes "ud_material ud = Some m" and "m = stal \<or> m = tsvetnoy_metall"
    and "ud_operation ud = Some frezerovanie" and "ud_tool_type ud = Some monolitnaya"
    and "ud_tool_subtype ud = Some sfericheskaya" and "ud_diameter ud = Some (Fin D)"
    and "py_float (py_replace 0x2C 0x2E txt) = Inr (Fin a)"
    and "0 < D" and "D < a" and "1 / 2 ^ 1022 \<le> a * (a - D)"
  shows "calculate_cutting_width (Fin D) (Fin a) sfericheskaya = Inl ValueError
       \<and> depth_of_cut ud txt =
           (Inr (Some DEPTH_OF_CUT), ud\<lparr>ud_depth_of_cut := Some (Fin a)\<rparr>,
            [([Lit msg_depth_not_numeric], None)])"
proof -
  from assms(8,9) have neg: "a * (D - a) < 0"
    by (intro mult_pos_neg) simp_all
  then have w: "calculate_cutting_width (Fin D) (Fin a) sfericheskaya = Inl ValueError"
    by (simp add: calculate_cutting_width_def sfericheskaya_def tsilindricheskaya_def)
  from assms(1-5) have "\<exists>e. get_cutting_parameters (ud\<lparr>ud_depth_of_cut := Some (Fin a)\<rparr>)
                         = Inr (Some (Entry e))"
    by (auto simp: get_cutting_parameters_def get_cutting_parameters_try_def getitem_def
          cutting_parameters_def key_defs)
  then obtain e where
    g: "get_cutting_parameters (ud\<lparr>ud_depth_of_cut := Some (Fin a)\<rparr>) = Inr (Some (Entry e))"
    by blast
  from assms(8) have "D \<noteq> 0" by simp
  with g w assms(5,6,7) have "depth_of_cut ud txt =
           (Inr (Some DEPTH_OF_CUT), ud\<lparr>ud_depth_of_cut := Some (Fin a)\<rparr>,
            [([Lit msg_depth_not_numeric], None)])"
    by (simp add: depth_of_cut_def depth_of_cut_try_def sfericheskaya_def)
  with w show ?thesis by blast
qed

theorem depth_beyond_diameter_reprompts_witness:
  "ud_diameter (empty_user_data\<lparr>ud_material := Some stal, ud_operation := Some frezerovanie,
          ud_tool_type := Some monolitnaya, ud_tool_subtype := Some sfericheskaya,
          ud_diameter := Some (Fin 8)\<rparr>) = Some (Fin 8)
   \<and> py_float (py_replace 0x2C 0x2E (cp ''9,5'')) = Inr (Fin 9.5)
   \<and> (0::real) < 8 \<and> (8::real) < 9.5 \<and> (1::real) / 2 ^ 1022 \<le> 9.5 * (9.5 - 8)
   \<and> depth_of_cut (empty_user_data\<lparr>ud_material := Some stal, ud_operation := Some frezerovanie,
          ud_tool_type := Some monolitnaya, ud_tool_subtype := Some sfericheskaya,
          ud_diameter := Some (Fin 8)\<rparr>) (cp ''9,5'')
     = (Inr (Some DEPTH_OF_CUT),
        empty_user_data\<lparr>ud_material := Some stal, ud_operation := Some frezerovanie,
          ud_tool_type := Some monolitnaya, ud_tool_subtype := Some sfericheskaya,
          ud_diameter := Some (Fin 8), ud_depth_of_cut := Some (Fin 9.5)\<rparr>,
        [([Lit msg_depth_not_numeric], None)])"
proof -
  have p: "py_float (py_replace 0x2C 0x2E (cp ''9,5'')) = Inr (Fin 9.5)"
    by (simp add: parse_defs)
  show ?thesis
    using depth_beyond_diameter_reprompts [of "empty_user_data\<lparr>ud_material := Some stal,
              ud_operation := Some frezerovanie, ud_tool_type := Some monolitnaya,
              ud_tool_subtype := Some sfericheskaya, ud_diameter := Some (Fin 8)\<rparr>"
            stal 8 "cp ''9,5''" "9.5", OF _ _ _ _ _ _ p] p
    by simp
qed

text \<open>
  C3 as stated fails for diameter 10 and depth 12: the square root is reached and is what
  raises, and the reply is the one a text that is no number gets.
\<close>

theorem depth_beyond_diameter_counterexample:
  "fsqrt (fmul (Fin 12) (fsub (Fin 10) (Fin 12))) = Inl ValueError
   \<and> calculate_cutting_width (Fin 10) (Fin 12) sfericheskaya = Inl ValueError
   \<and> depth_of_cut
       (empty_user_data\<lparr>ud_material := Some stal, ud_operation := Some frezerovanie,
          ud_tool_type := Some monolitnaya, ud_tool_subtype := Some sfericheskaya,
          ud_diameter := Some (Fin 10), ud_number_of_teeth := Some 2\<rparr>) (cp ''12'')
     = (Inr (Some DEPTH_OF_CUT),
        empty_user_data\<lparr>ud_material := Some stal, ud_operation := Some frezerovanie,
          ud_tool_type := Some monolitnaya, ud_tool_subtype := Some sfericheskaya,
          ud_diameter := Some (Fin 10), ud_number_of_teeth := Some 2,
          ud_depth_of_cut := Some (Fin 12)\<rparr>,
        [([Lit msg_depth_not_numeric], None)])
   \<and> snd (snd (depth_of_cut
       (empty_user_data\<lparr>ud_material := Some stal, ud_operation := Some frezerovanie,
          ud_tool_type := Some monolitnaya, ud_tool_subtype := Some sfericheskaya,
          ud_diameter := Some (Fin 10), ud_number_of_teeth := Some 2\<rparr>) (cp ''abc'')))
     = [([Lit msg_depth_not_numeric], None)]"
proof -
  have p: "py_float (py_replace 0x2C 0x2E (cp ''12'')) = Inr (Fin 12)"
    by (simp add: parse_defs)
  have q: "py_float (py_replace 0x2C 0x2E (cp ''abc'')) = Inl ValueError"
    by (simp add: parse_defs)
  have w: "calculate_cutting_width (Fin 10) (Fin 12) sfericheskaya = Inl ValueError"
    by (simp add: calculate_cutting_width_def sfericheskaya_def tsilindricheskaya_def)
  have g: "get_cutting_parameters
       (empty_user_data\<lparr>ud_material := Some stal, ud_operation := Some frezerovanie,
          ud_tool_type := Some monolitnaya, ud_tool_subtype := Some sfericheskaya,
          ud_diameter := Some (Fin 10), ud_number_of_teeth := Some 2,
          ud_depth_of_cut := Some (Fin 12)\<rparr>)
       = Inr (Some (Entry \<lparr>skorost = (70, 110), podacha = (0.08, 0.25), glubina = Some (1, 3)\<rparr>))"
    by (simp add: get_cutting_parameters_def get_cutting_parameters_try_def getitem_def
          cutting_parameters_def key_defs empty_user_data_def)
  have s: "fsqrt (fmul (Fin 12) (fsub (Fin 10) (Fin 12))) = Inl ValueError" by simp
  have d: "depth_of_cut
       (empty_user_data\<lparr>ud_material := Some stal, ud_operation := Some frezerovanie,
          ud_tool_type := Some monolitnaya, ud_tool_subtype := Some sfericheskaya,
          ud_diameter := Some (Fin 10), ud_number_of_teeth := Some 2\<rparr>) (cp ''12'')
     = (Inr (Some DEPTH_OF_CUT),
        empty_user_data\<lparr>ud_material := Some stal, ud_operation := Some frezerovanie,
          ud_tool_type := Some monolitnaya, ud_tool_subtype := Some sfericheskaya,
          ud_diameter := Some (Fin 10), ud_number_of_teeth := Some 2,
          ud_depth_of_cut := Some (Fin 12)\<rparr>,
        [([Lit msg_depth_not_numeric], None)])"
    using p g w by (simp add: depth_of_cut_def depth_of_cut_try_def sfericheskaya_def)
  have a: "snd (snd (depth_of_cut
       (empty_user_data\<lparr>ud_material := Some stal, ud_operation := Some frezerovanie,
          ud_tool_type := Some monolitnaya, ud_tool_subtype := Some sfericheskaya,
          ud_diameter := Some (Fin 10), ud_number_of_teeth := Some 2\<rparr>) (cp ''abc'')))
     = [([Lit msg_depth_not_numeric], None)]"
    using q by (simp add: depth_of_cut_def depth_of_cut_try_def)
  from s w d a show ?thesis by blast
qed

subsection \<open>Drilling\<close>

text \<open>
  C5, as the code has it. In a drilling conversation a diameter that parses to anything
  but zero ends the conversation at once (with the result or, when the lookup finds
  nothing, with the error reply); no depth of cut is asked for. For steel, the solid
  drill of hard alloy and diameter 10 the message shows the speed 85.0, the feed 0.15,
  the feed per minute 405.8 (the unrounded spindle speed times the feed) and the spindle
  speed 2706, and has no line for the depth of cut.
\<close>

theorem drilling_diameter_terminal:
  assumes "ud_operation ud = Some sverlenie"
    and "py_float (py_replace 0x2C 0x2E txt) = Inr d" and "d \<noteq> Fin 0"
  shows "fst (diameter ud txt) = Inr (Some END)
       \<and> fst (run (END, ud0, []) [Command (cp ''start''), Text stal, Text sverlenie,
                Text monolitnoe, Text tverdy_splav]) = DIAMETER
       \<and> fst (snd (run (END, ud0, []) [Command (cp ''start''), Text stal, Text sverlenie,
                Text monolitnoe, Text tverdy_splav]))
           = empty_user_data\<lparr>ud_material := Some stal, ud_operation := Some sverlenie,
          ud_tool_type := Some monolitnoe, ud_tool_subtype := Some tverdy_splav\<rparr>
       \<and> handle_update DIAMETER
             (empty_user_data\<lparr>ud_material := Some stal, ud_operation := Some sverlenie,
          ud_tool_type := Some monolitnoe, ud_tool_subtype := Some tverdy_splav\<rparr>)
             (Text (cp ''10''))
           = (END,
              empty_user_data\<lparr>ud_material := Some stal, ud_operation := Some sverlenie,
          ud_tool_type := Some monolitnoe, ud_tool_subtype := Some tverdy_splav,
          ud_diameter := Some (Fin 10)\<rparr>,
              [([Lit (txt_recommended_for @ stal @ cp '' ('' @ sverlenie @ txt_with_tool @ monolitnoe
              @ cp '' ('' @ tverdy_splav @ cp '')'' @ cp '':'' @ [0x0A]
              @ txt_speed @ cp ''85.0'' @ txt_m_min @ [0x0A]
              @ txt_feed @ cp ''0.15'' @ txt_mm_rev @ [0x0A]
              @ txt_feed_per_minute @ cp ''405.8'' @ txt_mm_min @ [0x0A]
              @ txt_spindle @ cp ''2706'' @ txt_rev_min @ [0x0A]
              @ txt_support)],
        Some start_keyboard)])"
proof -
  have s: "run (END, ud0, []) [Command (cp ''start''), Text stal, Text sverlenie,
              Text monolitnoe, Text tverdy_splav]
           = (DIAMETER,
              empty_user_data\<lparr>ud_material := Some stal, ud_operation := Some sverlenie,
          ud_tool_type := Some monolitnoe, ud_tool_subtype := Some tverdy_splav\<rparr>,
              snd (snd (run (END, ud0, []) [Command (cp ''start''), Text stal, Text sverlenie,
                Text monolitnoe, Text tverdy_splav])))"
    by (rule drilling_scenario_states)
  have s1: "fst (run (END, ud0, []) [Command (cp ''start''), Text stal, Text sverlenie,
                Text monolitnoe, Text tverdy_splav]) = DIAMETER"
    by (subst s) simp
  have s2: "fst (snd (run (END, ud0, []) [Command (cp ''start''), Text stal, Text sverlenie,
                Text monolitnoe, Text tverdy_splav]))
           = empty_user_data\<lparr>ud_material := Some stal, ud_operation := Some sverlenie,
          ud_tool_type := Some monolitnoe, ud_tool_subtype := Some tverdy_splav\<rparr>"
    by (subst s) simp
  have h: "handle_update DIAMETER
             (empty_user_data\<lparr>ud_material := Some stal, ud_operation := Some sverlenie,
          ud_tool_type := Some monolitnoe, ud_tool_subtype := Some tverdy_splav\<rparr>)
             (Text (cp ''10''))
           = (END,
              empty_user_data\<lparr>ud_material := Some stal, ud_operation := Some sverlenie,
          ud_tool_type := Some monolitnoe, ud_tool_subtype := Some tverdy_splav,
          ud_diameter := Some (Fin 10)\<rparr>,
              [([Lit (txt_recommended_for @ stal @ cp '' ('' @ sverlenie @ txt_with_tool @ monolitnoe
              @ cp '' ('' @ tverdy_splav @ cp '')'' @ cp '':'' @ [0x0A]
              @ txt_speed @ cp ''85.0'' @ txt_m_min @ [0x0A]
              @ txt_feed @ cp ''0.15'' @ txt_mm_rev @ [0x0A]
              @ txt_feed_per_minute @ cp ''405.8'' @ txt_mm_min @ [0x0A]
              @ txt_spindle @ cp ''2706'' @ txt_rev_min @ [0x0A]
              @ txt_support)],
        Some start_keyboard)])"
    by (simp add: handle_update_def drilling_scenario_reply)
  from drilling_diameter_ends [OF assms] s1 s2 h show ?thesis by blast
qed

theorem drilling_diameter_terminal_witness:
  "ud_operation (empty_user_data\<lparr>ud_material := Some stal, ud_operation := Some sverlenie,
          ud_tool_type := Some monolitnoe, ud_tool_subtype := Some tverdy_splav\<rparr>) = Some sverlenie
   \<and> py_float (py_replace 0x2C 0x2E (cp ''10'')) = Inr (Fin 10)
   \<and> Fin 10 \<noteq> Fin 0
   \<and> fst (diameter (empty_user_data\<lparr>ud_material := Some stal, ud_operation := Some sverlenie,
          ud_tool_type := Some monolitnoe, ud_tool_subtype := Some tverdy_splav\<rparr>) (cp ''10'')) = Inr (Some END)"
proof -
  have p: "py_float (py_replace 0x2C 0x2E (cp ''10'')) = Inr (Fin 10)"
    by (simp add: parse_defs)
  show ?thesis
    using drilling_diameter_terminal [of "empty_user_data\<lparr>ud_material := Some stal, ud_operation := Some sverlenie,
          ud_tool_type := Some monolitnoe, ud_tool_subtype := Some tverdy_splav\<rparr>" "cp ''10''" "Fin 10", OF _ p] p
    by simp
qed

text \<open>
  C5 as stated fails in the feed per minute: the message of the scenario shows 405.8, so
  it is not the message with 405.9.
\<close>

theorem drilling_feed_rate_counterexample:
  "snd (snd (handle_update DIAMETER
             (empty_user_data\<lparr>ud_material := Some stal, ud_operation := Some sverlenie,
          ud_tool_type := Some monolitnoe, ud_tool_subtype := Some tverdy_splav\<rparr>)
             (Text (cp ''10''))))
     = [([Lit (txt_recommended_for @ stal @ cp '' ('' @ sverlenie @ txt_with_tool @ monolitnoe
              @ cp '' ('' @ tverdy_splav @ cp '')'' @ cp '':'' @ [0x0A]
              @ txt_speed @ cp ''85.0'' @ txt_m_min @ [0x0A]
              @ txt_feed @ cp ''0.15'' @ txt_mm_rev @ [0x0A]
              @ txt_feed_per_minute @ cp ''405.8'' @ txt_mm_min @ [0x0A]
              @ txt_spindle @ cp ''2706'' @ txt_rev_min @ [0x0A]
              @ txt_support)],
        Some start_keyboard)]
   \<and> snd (snd (handle_update DIAMETER
             (empty_user_data\<lparr>ud_material := Some stal, ud_operation := Some sverlenie,
          ud_tool_type := Some monolitnoe, ud_tool_subtype := Some tverdy_splav\<rparr>)
             (Text (cp ''10''))))
     \<noteq> [([Lit (txt_recommended_for @ stal @ cp '' ('' @ sverlenie @ txt_with_tool @ monolitnoe
              @ cp '' ('' @ tverdy_splav @ cp '')'' @ cp '':'' @ [0x0A]
              @ txt_speed @ cp ''85.0'' @ txt_m_min @ [0x0A]
              @ txt_feed @ cp ''0.15'' @ txt_mm_rev @ [0x0A]
              @ txt_feed_per_minute @ cp ''405.9'' @ txt_mm_min @ [0x0A]
              @ txt_spindle @ cp ''2706'' @ txt_rev_min @ [0x0A]
              @ txt_support)],
        Some start_keyboard)]"
proof -
  have h: "snd (snd (handle_update DIAMETER
             (empty_user_data\<lparr>ud_material := Some stal, ud_operation := Some sverlenie,
          ud_tool_type := Some monolitnoe, ud_tool_subtype := Some tverdy_splav\<rparr>)
             (Text (cp ''10''))))
     = [([Lit (txt_recommended_for @ stal @ cp '' ('' @ sverlenie @ txt_with_tool @ monolitnoe
              @ cp '' ('' @ tverdy_splav @ cp '')'' @ cp '':'' @ [0x0A]
              @ txt_speed @ cp ''85.0'' @ txt_m_min @ [0x0A]
              @ txt_feed @ cp ''0.15'' @ txt_mm_rev @ [0x0A]
              @ txt_feed_per_minute @ cp ''405.8'' @ txt_mm_min @ [0x0A]
              @ txt_spindle @ cp ''2706'' @ txt_rev_min @ [0x0A]
              @ txt_support)],
        Some start_keyboard)]"
    by (simp add: handle_update_def drilling_scenario_reply)
  have n: "cp ''405.8'' @ zs \<noteq> cp ''405.9'' @ zs" for zs :: pystr
    by (simp add: cp_def)
  show ?thesis
    unfolding h using n by simp
qed

end
